theory Spec2Isabelle
  imports Complex_Main "HOL-Library.Sublist"
begin

section \<open>Python values, exceptions and the operators the fetcher applies to them\<close>

text \<open>
  Everything the cache and the fetcher handle is a decoded JSON document, so a Python
  value is a \<open>json\<close>: \<open>None\<close> is \<open>JNull\<close>, a \<open>dict\<close> is \<open>JObj\<close> (an association
  list whose keys are strings, looked up with \<open>map_of\<close>), a \<open>list\<close> is \<open>JArr\<close>.
  Numbers are integers: the provider delivers every numeric field as a string, and a
  number with a fraction is outside the model.
\<close>

datatype json =
    JNull
  | JBool bool
  | JNum int
  | JStr string
  | JArr "json list"
  | JObj "(string \<times> json) list"

text \<open>
  The exception classes that occur. \<open>Timeout\<close>, \<open>ConnectionError\<close> and \<open>HTTPError\<close>
  (with the status of its response) are subclasses of \<open>requests.RequestException\<close>;
  \<open>RequestException\<close> is an instance of the base class itself. \<open>json.JSONDecodeError\<close>
  and \<open>UnicodeDecodeError\<close> are subclasses of \<open>ValueError\<close> and are modelled as
  \<open>ValueError\<close>. Messages are not modelled.
\<close>

datatype exn =
    Timeout
  | ConnectionError
  | HTTPError nat
  | RequestException
  | ValueError
  | TypeError
  | KeyError
  | IndexError
  | AttributeError
  | OSError

fun is_RequestException :: "exn \<Rightarrow> bool" where
  "is_RequestException Timeout = True"
| "is_RequestException ConnectionError = True"
| "is_RequestException (HTTPError s) = True"
| "is_RequestException RequestException = True"
| "is_RequestException e = False"

type_synonym 'a result = "exn + 'a"

abbreviation Raise :: "exn \<Rightarrow> 'a result" where
  "Raise \<equiv> Inl"

abbreviation Return :: "'a \<Rightarrow> 'a result" where
  "Return \<equiv> Inr"

text \<open>Sequencing: an exception of the first statement skips the rest.\<close>

definition bindR :: "'a result \<Rightarrow> ('a \<Rightarrow> 'b result) \<Rightarrow> 'b result" where
  "bindR m f = (case m of Inl e \<Rightarrow> Inl e | Inr x \<Rightarrow> f x)"

text \<open>\<^verbatim>\<open>key in v\<close>: key membership of a dict, element membership of a list, substring
  test of a string, TypeError for a value that is not a container.\<close>

fun py_in :: "string \<Rightarrow> json \<Rightarrow> bool result" where
  "py_in k (JObj kvs) = Return (map_of kvs k \<noteq> None)"
| "py_in k (JArr xs) = Return (JStr k \<in> set xs)"
| "py_in k (JStr s) = Return (sublist k s)"
| "py_in k v = Raise TypeError"

text \<open>\<^verbatim>\<open>v[key]\<close> with a string key: KeyError for a dict without the key, TypeError
  for every other value (a list or a string cannot be indexed by a string, the rest
  cannot be subscripted).\<close>

fun py_getitem :: "json \<Rightarrow> string \<Rightarrow> json result" where
  "py_getitem (JObj kvs) k = (case map_of kvs k of None \<Rightarrow> Raise KeyError | Some v \<Rightarrow> Return v)"
| "py_getitem v k = Raise TypeError"

text \<open>\<^verbatim>\<open>v.get(key, default)\<close>: only a dict has the method.\<close>

fun py_get :: "json \<Rightarrow> string \<Rightarrow> json \<Rightarrow> json result" where
  "py_get (JObj kvs) k d = Return (case map_of kvs k of None \<Rightarrow> d | Some v \<Rightarrow> v)"
| "py_get v k d = Raise AttributeError"

text \<open>\<^verbatim>\<open>v[0]\<close>: the first element of a list, the first character of a string,
  IndexError when empty; a decoded dict has string keys only, so \<open>0\<close> is never a key.\<close>

fun py_first :: "json \<Rightarrow> json result" where
  "py_first (JArr []) = Raise IndexError"
| "py_first (JArr (x # xs)) = Return x"
| "py_first (JStr []) = Raise IndexError"
| "py_first (JStr (c # cs)) = Return (JStr [c])"
| "py_first (JObj kvs) = Raise KeyError"
| "py_first v = Raise TypeError"

text \<open>Truth value: \<^verbatim>\<open>not v\<close> holds for None, False, 0 and the empty containers.\<close>

fun py_falsy :: "json \<Rightarrow> bool" where
  "py_falsy JNull = True"
| "py_falsy (JBool b) = (\<not> b)"
| "py_falsy (JNum n) = (n = 0)"
| "py_falsy (JStr s) = (s = [])"
| "py_falsy (JArr xs) = (xs = [])"
| "py_falsy (JObj kvs) = (kvs = [])"

text \<open>\<^verbatim>\<open>for x in v\<close>: the elements of a list, the keys of a dict, the characters of a
  string; TypeError for a value that is not iterable.\<close>

fun py_iter :: "json \<Rightarrow> json list result" where
  "py_iter (JArr xs) = Return xs"
| "py_iter (JObj kvs) = Return (map (\<lambda>kv. JStr (fst kv)) kvs)"
| "py_iter (JStr s) = Return (map (\<lambda>c. JStr [c]) s)"
| "py_iter v = Raise TypeError"

text \<open>The check every parser starts with:
  \<^verbatim>\<open>for field in required_fields: if field not in d: raise ValueError(...)\<close>.\<close>

fun require_fields :: "string list \<Rightarrow> json \<Rightarrow> unit result" where
  "require_fields [] d = Return ()"
| "require_fields (f # fs) d =
     bindR (py_in f d) (\<lambda>present. if present then require_fields fs d else Raise ValueError)"

text \<open>\<^verbatim>\<open>str(n)\<close> for an integer: its decimal digits.\<close>

fun show_nat :: "nat \<Rightarrow> string" where
  "show_nat n =
     (if n < 10 then [char_of (48 + n)] else show_nat (n div 10) @ [char_of (48 + n mod 10)])"

definition show_int :: "int \<Rightarrow> string" where
  "show_int i = (if i < 0 then CHR ''-'' # show_nat (nat (- i)) else show_nat (nat i))"

text \<open>\<^verbatim>\<open>str(v)\<close> as an f-string applies it. The \<open>repr\<close> of a list or dict is not modelled
  beyond its brackets.\<close>

fun py_str :: "json \<Rightarrow> string" where
  "py_str (JStr s) = s"
| "py_str (JNum n) = show_int n"
| "py_str (JBool b) = (if b then ''True'' else ''False'')"
| "py_str JNull = ''None''"
| "py_str (JArr xs) = ''[...]''"
| "py_str (JObj kvs) = ''{...}''"

text \<open>\<^verbatim>\<open>v.rstrip('Z')\<close>: only a string has the method.\<close>

fun py_rstrip_Z :: "json \<Rightarrow> string result" where
  "py_rstrip_Z (JStr s) = Return (rev (dropWhile (\<lambda>c. c = CHR ''Z'') (rev s)))"
| "py_rstrip_Z v = Raise AttributeError"

text \<open>
  \<^verbatim>\<open>int(v)\<close> and \<^verbatim>\<open>float(v)\<close>. For a string the model accepts an optional sign and decimal
  digits (for \<open>float\<close> with an optional fraction after a point) and raises ValueError for
  any other text; Python also accepts surrounding blanks, underscores and, for \<open>float\<close>,
  exponents and the special values. A \<open>float\<close> is an exact rational here; the rounding
  to a double is not modelled.
\<close>

definition digit_of :: "char \<Rightarrow> nat option" where
  "digit_of c = (let n = (of_char c :: nat) in if 48 \<le> n \<and> n \<le> 57 then Some (n - 48) else None)"

fun digits_value :: "nat \<Rightarrow> string \<Rightarrow> nat option" where
  "digits_value acc [] = Some acc"
| "digits_value acc (c # cs) =
     (case digit_of c of None \<Rightarrow> None | Some d \<Rightarrow> digits_value (10 * acc + d) cs)"

definition unsigned_part :: "string \<Rightarrow> bool \<times> string" where
  "unsigned_part s =
     (case s of
        [] \<Rightarrow> (False, [])
      | c # cs \<Rightarrow> if c = CHR ''-'' then (True, cs) else if c = CHR ''+'' then (False, cs) else (False, s))"

definition parse_int :: "string \<Rightarrow> int option" where
  "parse_int s =
     (case unsigned_part s of (neg, body) \<Rightarrow>
        if body = [] then None
        else case digits_value 0 body of
               None \<Rightarrow> None
             | Some n \<Rightarrow> Some (if neg then - int n else int n))"

definition parse_float :: "string \<Rightarrow> rat option" where
  "parse_float s =
     (case unsigned_part s of (neg, body) \<Rightarrow>
        (let whole = takeWhile (\<lambda>c. c \<noteq> CHR ''.'') body;
             rest = dropWhile (\<lambda>c. c \<noteq> CHR ''.'') body
         in if whole = [] then None
            else case digits_value 0 whole of
                   None \<Rightarrow> None
                 | Some n \<Rightarrow>
                     (case rest of
                        [] \<Rightarrow> Some (if neg then - of_nat n else of_nat n)
                      | dot # fraction \<Rightarrow>
                          if fraction = [] then None
                          else case digits_value 0 fraction of
                                 None \<Rightarrow> None
                               | Some f \<Rightarrow>
                                   (let v = of_nat n + of_nat f / 10 ^ length fraction
                                    in Some (if neg then - v else v)))))"

fun py_int :: "json \<Rightarrow> int result" where
  "py_int (JStr s) = (case parse_int s of None \<Rightarrow> Raise ValueError | Some n \<Rightarrow> Return n)"
| "py_int (JNum n) = Return n"
| "py_int (JBool b) = Return (if b then 1 else 0)"
| "py_int v = Raise TypeError"

fun py_float :: "json \<Rightarrow> rat result" where
  "py_float (JStr s) = (case parse_float s of None \<Rightarrow> Raise ValueError | Some x \<Rightarrow> Return x)"
| "py_float (JNum n) = Return (of_int n)"
| "py_float (JBool b) = Return (if b then 1 else 0)"
| "py_float v = Raise TypeError"

text \<open>\<^verbatim>\<open>except (ValueError, TypeError) as e: raise ValueError(...)\<close> around a block.\<close>

definition reraise_as_ValueError :: "'a result \<Rightarrow> 'a result" where
  "reraise_as_ValueError m =
     (case m of
        Inl e \<Rightarrow> if e = ValueError \<or> e = TypeError then Raise ValueError else Raise e
      | Inr x \<Rightarrow> Return x)"

text \<open>The exceptions that the loops over a collection catch per element:
  \<^verbatim>\<open>except (KeyError, ValueError, TypeError)\<close>.\<close>

fun skippable :: "exn \<Rightarrow> bool" where
  "skippable KeyError = True"
| "skippable ValueError = True"
| "skippable TypeError = True"
| "skippable e = False"

section \<open>models.py\<close>

text \<open>A dataclass does not check the annotated field types, so a field holds whatever
  value the payload had.\<close>

record Driver =
  driver_id :: json
  code :: json
  forename :: json
  surname :: json
  nationality :: json

text \<open>Field names that occur in several classes carry the class as a prefix from their
  second occurrence on; \<open>round\<close> is \<open>round_num\<close>. A \<open>datetime\<close> is a point of the clock.\<close>

record Circuit =
  circuit_id :: json
  circuit_name :: json
  location :: json
  country :: json

record Constructor =
  constructor_id :: json
  name :: json
  constructor_nationality :: json

record Race =
  season :: int
  round_num :: int
  race_name :: json
  circuit :: Circuit
  date :: int

record RaceResult =
  race :: Race
  driver :: Driver
  constructor :: Constructor
  position :: int
  points :: rat
  grid :: int
  laps :: int
  status :: json

record QualifyingResult =
  q_race :: Race
  q_driver :: Driver
  q_constructor :: Constructor
  q_position :: int
  q1_time :: json
  q2_time :: json
  q3_time :: json

record DriverStanding =
  ds_driver :: Driver
  ds_constructor :: Constructor
  ds_position :: int
  ds_points :: rat
  ds_wins :: int

record ConstructorStanding =
  cs_constructor :: Constructor
  cs_position :: int
  cs_points :: rat
  cs_wins :: int

section \<open>cache.py: the storage name of a key\<close>

text \<open>\<^verbatim>\<open>key.replace('/', '_').replace(':', '_')\<close>, character by character.\<close>

definition safe_key :: "string \<Rightarrow> string" where
  "safe_key key =
     map (\<lambda>c. if c = CHR '':'' then CHR ''_'' else c)
       (map (\<lambda>c. if c = CHR ''/'' then CHR ''_'' else c) key)"

text \<open>\<^verbatim>\<open>self.cache_dir / f"{safe_key}.json"\<close>: the sanitised key holds no separator, so
  the path is the directory, a separator and the file name.\<close>

definition get_cache_path :: "string \<Rightarrow> string \<Rightarrow> string" where
  "get_cache_path cache_dir key = cache_dir @ ''/'' @ safe_key key @ ''.json''"

section \<open>The environment\<close>

text \<open>
  What the program reads and changes outside its own objects:
  \<^item> the cache directory, a map from path to what the file holds: text that
    \<open>json.load\<close> rejects (\<open>Garbled\<close>, which stands for undecodable bytes too) or text
    that decodes to a value (\<open>Doc\<close>); \<open>denied\<close> says which file operations raise
    \<open>OSError\<close>;
  \<^item> the system clock, in milliseconds; \<open>time.sleep\<close> advances it;
  \<open>datetime\<close>'s text format is not part of the repository, so \<open>isoformat\<close>,
    \<open>fromisoformat\<close> (\<open>None\<close> is its ValueError) and the \<open>year\<close> attribute are taken from
    the environment; datetimes are naive;
  \<^item> the provider: what the \<open>n\<close>-th call of \<open>requests.get\<close> does for a URL and its
    query parameters; \<open>calls\<close> counts the calls made and \<open>backoffs\<close> lists the arguments
    of the \<open>time.sleep\<close> calls of the retry loop, in seconds.
  The one attribute of the fetcher that changes, \<open>_last_request_time\<close>, is kept in the
  same record.
\<close>

datatype content = Garbled | Doc json

datatype fs_op = OpRead | OpWrite | OpUnlink

datatype outcome = Fails exn | Responds nat content

type_synonym params = "(string \<times> int) list"

record world =
  files :: "string \<Rightarrow> content option"
  denied :: "fs_op \<Rightarrow> string \<Rightarrow> bool"
  clock :: int
  isoformat :: "int \<Rightarrow> string"
  fromisoformat :: "string \<Rightarrow> int option"
  year_of :: "int \<Rightarrow> int"
  provider :: "nat \<Rightarrow> string \<Rightarrow> params \<Rightarrow> outcome"
  calls :: nat
  backoffs :: "nat list"
  last_request_time :: int

text \<open>\<^verbatim>\<open>datetime.fromisoformat(v)\<close>: TypeError unless \<open>v\<close> is a string.\<close>

fun py_fromisoformat :: "world \<Rightarrow> json \<Rightarrow> int result" where
  "py_fromisoformat w (JStr s) = (case fromisoformat w s of None \<Rightarrow> Raise ValueError | Some t \<Rightarrow> Return t)"
| "py_fromisoformat w v = Raise TypeError"

section \<open>cache.py: DataCache\<close>

record DataCache =
  cache_dir :: string

text \<open>\<^verbatim>\<open>with open(cache_path, 'r') as f: cache_entry = json.load(f)\<close>\<close>

definition json_load :: "world \<Rightarrow> string \<Rightarrow> json result" where
  "json_load w cache_path =
     (if denied w OpRead cache_path then Raise OSError
      else case files w cache_path of
             None \<Rightarrow> Raise OSError
           | Some Garbled \<Rightarrow> Raise ValueError
           | Some (Doc v) \<Rightarrow> Return v)"

text \<open>The statements of \<open>get\<close> inside its \<open>try\<close>.\<close>

definition get_try :: "world \<Rightarrow> string \<Rightarrow> bool \<Rightarrow> json result" where
  "get_try w cache_path ignore_ttl =
     bindR (json_load w cache_path) (\<lambda>cache_entry.
     bindR (py_in ''data'' cache_entry) (\<lambda>has_data.
       if \<not> has_data then Return JNull
       else
     bindR (py_in ''expires_at'' cache_entry) (\<lambda>has_expires.
       if \<not> has_expires then Return JNull
       else
     bindR (if ignore_ttl then Return False
            else bindR (py_getitem cache_entry ''expires_at'') (\<lambda>v.
                 bindR (py_fromisoformat w v) (\<lambda>expires_at.
                   Return (clock w > expires_at)))) (\<lambda>expired.
       if expired then Return JNull
       else py_getitem cache_entry ''data''))))"

text \<open>\<^verbatim>\<open>if cache_path.exists(): cache_path.unlink()\<close> under \<^verbatim>\<open>except OSError: pass\<close>\<close>

definition unlink_quietly :: "string \<Rightarrow> world \<Rightarrow> world" where
  "unlink_quietly cache_path w =
     (if files w cache_path \<noteq> None \<and> \<not> denied w OpUnlink cache_path
      then w\<lparr>files := (files w)(cache_path := None)\<rparr>
      else w)"

text \<open>\<open>get\<close>: \<open>JNull\<close> is Python's \<open>None\<close>. The handler catches JSONDecodeError,
  ValueError and OSError; any other exception leaves the method.\<close>

definition get :: "DataCache \<Rightarrow> string \<Rightarrow> bool \<Rightarrow> world \<Rightarrow> json result \<times> world" where
  "get self key ignore_ttl w =
     (let cache_path = get_cache_path (cache_dir self) key in
      if files w cache_path = None then (Return JNull, w)
      else case get_try w cache_path ignore_ttl of
             Inr v \<Rightarrow> (Return v, w)
           | Inl e \<Rightarrow>
               if e = ValueError \<or> e = OSError
               then (Return JNull, unlink_quietly cache_path w)
               else (Raise e, w))"

text \<open>\<open>set\<close>: the entry replaces the file; an \<open>OSError\<close> of \<open>open\<close> is swallowed and
  leaves the storage as it was. (\<open>json.dump\<close> raises TypeError for a value that is
  not serialisable; every \<open>json\<close> is.)\<close>

definition cache_entry_of :: "world \<Rightarrow> json \<Rightarrow> int \<Rightarrow> json" where
  "cache_entry_of w data ttl =
     JObj [(''data'', data),
           (''cached_at'', JStr (isoformat w (clock w))),
           (''expires_at'', JStr (isoformat w (clock w + 1000 * ttl))),
           (''ttl'', JNum ttl)]"

definition set_entry :: "DataCache \<Rightarrow> string \<Rightarrow> json \<Rightarrow> int \<Rightarrow> world \<Rightarrow> world" where
  "set_entry self key data ttl w =
     (let cache_path = get_cache_path (cache_dir self) key in
      if denied w OpWrite cache_path then w
      else w\<lparr>files := (files w)(cache_path \<mapsto> Doc (cache_entry_of w data ttl))\<rparr>)"

definition is_valid :: "DataCache \<Rightarrow> string \<Rightarrow> world \<Rightarrow> bool result" where
  "is_valid self key w =
     (let cache_path = get_cache_path (cache_dir self) key in
      if files w cache_path = None then Return False
      else case bindR (json_load w cache_path) (\<lambda>cache_entry.
                bindR (py_in ''expires_at'' cache_entry) (\<lambda>has_expires.
                  if \<not> has_expires then Return False
                  else
                bindR (py_getitem cache_entry ''expires_at'') (\<lambda>v.
                bindR (py_fromisoformat w v) (\<lambda>expires_at.
                  Return (clock w \<le> expires_at))))) of
             Inr b \<Rightarrow> Return b
           | Inl e \<Rightarrow> if e = ValueError \<or> e = OSError then Return False else Raise e)"

section \<open>data\_fetcher.py: F1DataFetcher, requests\<close>

record F1DataFetcher =
  cache :: DataCache
  use_cache :: bool

definition MAX_RETRIES :: nat where
  "MAX_RETRIES = 3"

text \<open>\<open>RATE_LIMIT_DELAY\<close>, 0.1 s, in milliseconds.\<close>

definition RATE_LIMIT_DELAY :: int where
  "RATE_LIMIT_DELAY = 100"

definition rate_limit :: "world \<Rightarrow> world" where
  "rate_limit w =
     (let elapsed = clock w - last_request_time w;
          w1 = (if elapsed < RATE_LIMIT_DELAY
                then w\<lparr>clock := clock w + (RATE_LIMIT_DELAY - elapsed)\<rparr> else w)
      in w1\<lparr>last_request_time := clock w1\<rparr>)"

text \<open>\<^verbatim>\<open>time.sleep(2 ** retry_count)\<close> in the retry loop.\<close>

definition backoff_sleep :: "nat \<Rightarrow> world \<Rightarrow> world" where
  "backoff_sleep secs w = w\<lparr>clock := clock w + 1000 * int secs, backoffs := backoffs w @ [secs]\<rparr>"

definition requests_get :: "string \<Rightarrow> params \<Rightarrow> world \<Rightarrow> outcome \<times> world" where
  "requests_get url ps w = (provider w (calls w) url ps, w\<lparr>calls := Suc (calls w)\<rparr>)"

text \<open>Lines 98 to 104: \<open>response.json()\<close> and the two checks of the envelope.\<close>

definition validate_body :: "content \<Rightarrow> json result" where
  "validate_body b =
     (case b of
        Garbled \<Rightarrow> Raise ValueError
      | Doc data \<Rightarrow>
          (case data of
             JObj kvs \<Rightarrow> if map_of kvs ''MRData'' = None then Raise ValueError else Return data
           | _ \<Rightarrow> Raise ValueError))"

text \<open>The body of the outer \<open>try\<close>, given what \<open>requests.get\<close> did:
  \<open>raise_for_status\<close> raises HTTPError for a status from 400 to 599, and the inner handler
  turns a ValueError of the validation into a \<open>requests.RequestException\<close>, raised inside
  the outer \<open>try\<close>.\<close>

definition attempt :: "outcome \<Rightarrow> json result" where
  "attempt out =
     (case out of
        Fails e \<Rightarrow> Raise e
      | Responds status_code b \<Rightarrow>
          if 400 \<le> status_code \<and> status_code < 600 then Raise (HTTPError status_code)
          else (case validate_body b of
                  Inr data \<Rightarrow> Return data
                | Inl e \<Rightarrow> if e = ValueError then Raise RequestException else Raise e))"

text \<open>What the three retrying handlers share: count the attempt, sleep if another
  attempt follows.\<close>

definition note_failure :: "nat \<Rightarrow> world \<Rightarrow> world" where
  "note_failure retry_count w =
     (if Suc retry_count < MAX_RETRIES then backoff_sleep (2 ^ Suc retry_count) w else w)"

function retry_loop :: "string \<Rightarrow> params \<Rightarrow> nat \<Rightarrow> exn option \<Rightarrow> world \<Rightarrow> json result \<times> world" where
  "retry_loop url ps retry_count last_exception w =
     (if retry_count < MAX_RETRIES then
        (case requests_get url ps w of (out, w1) \<Rightarrow>
           (case attempt out of
              Inr data \<Rightarrow> (Return data, w1)
            | Inl e \<Rightarrow>
                (case e of
                   Timeout \<Rightarrow>
                     retry_loop url ps (Suc retry_count) (Some e) (note_failure retry_count w1)
                 | HTTPError status_code \<Rightarrow>
                     if 400 \<le> status_code \<and> status_code < 500 then (Raise e, w1)
                     else retry_loop url ps (Suc retry_count) (Some e) (note_failure retry_count w1)
                 | _ \<Rightarrow>
                     if is_RequestException e
                     then retry_loop url ps (Suc retry_count) (Some e) (note_failure retry_count w1)
                     else (Raise e, w1))))
      else (case last_exception of
              Some e \<Rightarrow> (Raise e, w)
            | None \<Rightarrow> (Raise TypeError, w)))"
  by pat_completeness auto
termination
  by (relation "measure (\<lambda>(url, ps, retry_count, last_exception, w). MAX_RETRIES - retry_count)") auto

definition make_request :: "string \<Rightarrow> params \<Rightarrow> world \<Rightarrow> json result \<times> world" where
  "make_request url ps w = retry_loop url ps 0 None (rate_limit w)"

definition get_cached_or_fetch ::
  "F1DataFetcher \<Rightarrow> string \<Rightarrow> string \<Rightarrow> int \<Rightarrow> params \<Rightarrow> world \<Rightarrow> json result \<times> world" where
  "get_cached_or_fetch self cache_key url ttl ps w =
     (case (if use_cache self
            then (case get (cache self) cache_key False w of
                    (Inr cached_data, w') \<Rightarrow> (if cached_data \<noteq> JNull then Some cached_data else None, w')
                  | (Inl e, w') \<Rightarrow> (None, w'))
            else (None, w)) of
        (Some cached_data, w1) \<Rightarrow> (Return cached_data, w1)
      | (None, w1) \<Rightarrow>
          (case make_request url ps w1 of
             (Inr data, w2) \<Rightarrow>
               (Return data, if use_cache self then set_entry (cache self) cache_key data ttl w2 else w2)
           | (Inl e, w2) \<Rightarrow>
               if is_RequestException e \<and> use_cache self
               then (case get (cache self) cache_key True w2 of
                       (Inr stale_data, w3) \<Rightarrow>
                         if stale_data \<noteq> JNull then (Return stale_data, w3) else (Raise e, w3)
                     | (Inl cache_error, w3) \<Rightarrow> (Raise e, w3))
               else (Raise e, w2)))"

section \<open>data\_fetcher.py: the record parsers\<close>

definition parse_driver :: "json \<Rightarrow> Driver result" where
  "parse_driver driver_data =
     bindR (require_fields [''driverId'', ''givenName'', ''familyName'', ''nationality''] driver_data) (\<lambda>_.
     bindR (py_getitem driver_data ''driverId'') (\<lambda>v_id.
     bindR (py_get driver_data ''code'' (JStr ''???'')) (\<lambda>v_code.
     bindR (py_getitem driver_data ''givenName'') (\<lambda>v_given.
     bindR (py_getitem driver_data ''familyName'') (\<lambda>v_family.
     bindR (py_getitem driver_data ''nationality'') (\<lambda>v_nat.
       Return \<lparr> driver_id = v_id, code = v_code, forename = v_given,
                surname = v_family, nationality = v_nat \<rparr>))))))"

definition parse_circuit :: "json \<Rightarrow> Circuit result" where
  "parse_circuit circuit_data =
     bindR (require_fields [''circuitId'', ''circuitName'', ''Location''] circuit_data) (\<lambda>_.
     bindR (py_getitem circuit_data ''Location'') (\<lambda>loc.
     bindR (py_in ''locality'' loc) (\<lambda>has_locality.
       if \<not> has_locality then Raise ValueError
       else
     bindR (py_in ''country'' loc) (\<lambda>has_country.
       if \<not> has_country then Raise ValueError
       else
     bindR (py_getitem circuit_data ''circuitId'') (\<lambda>v_id.
     bindR (py_getitem circuit_data ''circuitName'') (\<lambda>v_name.
     bindR (py_getitem loc ''locality'') (\<lambda>v_locality.
     bindR (py_getitem loc ''country'') (\<lambda>v_country.
       Return \<lparr> circuit_id = v_id, circuit_name = v_name,
                location = v_locality, country = v_country \<rparr>))))))))"

definition parse_constructor :: "json \<Rightarrow> Constructor result" where
  "parse_constructor constructor_data =
     bindR (require_fields [''constructorId'', ''name'', ''nationality''] constructor_data) (\<lambda>_.
     bindR (py_getitem constructor_data ''constructorId'') (\<lambda>v_id.
     bindR (py_getitem constructor_data ''name'') (\<lambda>v_name.
     bindR (py_getitem constructor_data ''nationality'') (\<lambda>v_nat.
       Return \<lparr> constructor_id = v_id, name = v_name, constructor_nationality = v_nat \<rparr>))))"

text \<open>The date and time of a race: the block under \<^verbatim>\<open>try\<close> in \<open>_parse_race\<close>. An
  AttributeError of \<open>rstrip\<close> is not among the exceptions the block catches.\<close>

definition parse_race_date :: "world \<Rightarrow> json \<Rightarrow> int result" where
  "parse_race_date w race_data =
     reraise_as_ValueError
       (bindR (py_getitem race_data ''date'') (\<lambda>date_str.
        bindR (py_get race_data ''time'' (JStr ''00:00:00Z'')) (\<lambda>time_str.
        bindR (py_rstrip_Z time_str) (\<lambda>stripped.
          py_fromisoformat w (JStr (py_str date_str @ ''T'' @ stripped))))))"

definition parse_race :: "world \<Rightarrow> json \<Rightarrow> Race result" where
  "parse_race w race_data =
     bindR (require_fields [''season'', ''round'', ''raceName'', ''Circuit'', ''date''] race_data) (\<lambda>_.
     bindR (parse_race_date w race_data) (\<lambda>race_date.
     bindR (bindR (py_getitem race_data ''season'') py_int) (\<lambda>v_season.
     bindR (bindR (py_getitem race_data ''round'') py_int) (\<lambda>v_round.
     bindR (py_getitem race_data ''raceName'') (\<lambda>v_name.
     bindR (bindR (py_getitem race_data ''Circuit'') parse_circuit) (\<lambda>v_circuit.
       Return \<lparr> season = v_season, round_num = v_round, race_name = v_name,
                circuit = v_circuit, date = race_date \<rparr>))))))"

definition parse_race_result :: "Race \<Rightarrow> json \<Rightarrow> RaceResult result" where
  "parse_race_result race_v result_data =
     bindR (require_fields [''Driver'', ''Constructor'', ''position'', ''points'', ''grid'',
                            ''laps'', ''status''] result_data) (\<lambda>_.
     reraise_as_ValueError
       (bindR (bindR (py_getitem result_data ''Driver'') parse_driver) (\<lambda>v_driver.
        bindR (bindR (py_getitem result_data ''Constructor'') parse_constructor) (\<lambda>v_constructor.
        bindR (bindR (py_getitem result_data ''position'') py_int) (\<lambda>v_position.
        bindR (bindR (py_getitem result_data ''points'') py_float) (\<lambda>v_points.
        bindR (bindR (py_getitem result_data ''grid'') py_int) (\<lambda>v_grid.
        bindR (bindR (py_getitem result_data ''laps'') py_int) (\<lambda>v_laps.
        bindR (py_getitem result_data ''status'') (\<lambda>v_status.
          Return \<lparr> race = race_v, driver = v_driver, constructor = v_constructor,
                   position = v_position, points = v_points, grid = v_grid,
                   laps = v_laps, status = v_status \<rparr>)))))))))"

definition parse_qualifying_result :: "Race \<Rightarrow> json \<Rightarrow> QualifyingResult result" where
  "parse_qualifying_result race_v qual_data =
     bindR (require_fields [''Driver'', ''Constructor'', ''position''] qual_data) (\<lambda>_.
     reraise_as_ValueError
       (bindR (bindR (py_getitem qual_data ''Driver'') parse_driver) (\<lambda>v_driver.
        bindR (bindR (py_getitem qual_data ''Constructor'') parse_constructor) (\<lambda>v_constructor.
        bindR (bindR (py_getitem qual_data ''position'') py_int) (\<lambda>v_position.
        bindR (py_get qual_data ''Q1'' JNull) (\<lambda>v_q1.
        bindR (py_get qual_data ''Q2'' JNull) (\<lambda>v_q2.
        bindR (py_get qual_data ''Q3'' JNull) (\<lambda>v_q3.
          Return \<lparr> q_race = race_v, q_driver = v_driver, q_constructor = v_constructor,
                   q_position = v_position, q1_time = v_q1, q2_time = v_q2,
                   q3_time = v_q3 \<rparr>))))))))"

definition parse_driver_standing :: "json \<Rightarrow> DriverStanding result" where
  "parse_driver_standing standing_data =
     bindR (require_fields [''Driver'', ''Constructors'', ''position'', ''points'', ''wins'']
              standing_data) (\<lambda>_.
     bindR (py_getitem standing_data ''Constructors'') (\<lambda>constructors.
       if py_falsy constructors then Raise ValueError
       else
     reraise_as_ValueError
       (bindR (bindR (py_getitem standing_data ''Driver'') parse_driver) (\<lambda>v_driver.
        bindR (bindR (bindR (py_getitem standing_data ''Constructors'') py_first)
                 parse_constructor) (\<lambda>v_constructor.
        bindR (bindR (py_getitem standing_data ''position'') py_int) (\<lambda>v_position.
        bindR (bindR (py_getitem standing_data ''points'') py_float) (\<lambda>v_points.
        bindR (bindR (py_getitem standing_data ''wins'') py_int) (\<lambda>v_wins.
          Return \<lparr> ds_driver = v_driver, ds_constructor = v_constructor,
                   ds_position = v_position, ds_points = v_points, ds_wins = v_wins \<rparr>))))))))"

definition parse_constructor_standing :: "json \<Rightarrow> ConstructorStanding result" where
  "parse_constructor_standing standing_data =
     bindR (require_fields [''Constructor'', ''position'', ''points'', ''wins''] standing_data) (\<lambda>_.
     reraise_as_ValueError
       (bindR (bindR (py_getitem standing_data ''Constructor'') parse_constructor) (\<lambda>v_constructor.
        bindR (bindR (py_getitem standing_data ''position'') py_int) (\<lambda>v_position.
        bindR (bindR (py_getitem standing_data ''points'') py_float) (\<lambda>v_points.
        bindR (bindR (py_getitem standing_data ''wins'') py_int) (\<lambda>v_wins.
          Return \<lparr> cs_constructor = v_constructor, cs_position = v_position,
                   cs_points = v_points, cs_wins = v_wins \<rparr>))))))"

section \<open>data\_fetcher.py: the resource operations\<close>

definition BASE_URL :: string where
  "BASE_URL = ''https://api.jolpi.ca/ergast/f1''"

definition CACHE_TTL_SEASON_RESULTS :: int where
  "CACHE_TTL_SEASON_RESULTS = 86400"

definition CACHE_TTL_STANDINGS :: int where
  "CACHE_TTL_STANDINGS = 21600"

definition CACHE_TTL_QUALIFYING :: int where
  "CACHE_TTL_QUALIFYING = 3600"

definition CACHE_TTL_CIRCUIT_HISTORY :: int where
  "CACHE_TTL_CIRCUIT_HISTORY = 604800"

definition CACHE_TTL_NEXT_RACE :: int where
  "CACHE_TTL_NEXT_RACE = 3600"

text \<open>\<^verbatim>\<open>str(season) if season else "current"\<close>: None and 0 are false.\<close>

definition season_str_of :: "int option \<Rightarrow> string" where
  "season_str_of season_opt =
     (case season_opt of None \<Rightarrow> ''current'' | Some y \<Rightarrow> if y = 0 then ''current'' else show_int y)"

text \<open>
  A method keeps its list of records in a local variable that the loops append to,
  and an exception can leave a loop while the list already holds records. So a loop
  yields the list together with the exception that left it, if any.

  The innermost loop of every operation:
  \<^verbatim>\<open>for x in xs: try: results.append(parse(x)) except (KeyError, ValueError, TypeError): continue\<close>
\<close>

fun collect :: "(json \<Rightarrow> 'a result) \<Rightarrow> json list \<Rightarrow> 'a list \<Rightarrow> 'a list \<times> exn option" where
  "collect parse [] results = (results, None)"
| "collect parse (x # xs) results =
     (case parse x of
        Inr r \<Rightarrow> collect parse xs (results @ [r])
      | Inl e \<Rightarrow> if skippable e then collect parse xs results else (results, Some e))"

text \<open>\<^verbatim>\<open>data['MRData'].get(table, {}).get(field, [])\<close>\<close>

definition table_field :: "json \<Rightarrow> string \<Rightarrow> string \<Rightarrow> json result" where
  "table_field data table field =
     bindR (py_getitem data ''MRData'') (\<lambda>mr.
     bindR (py_get mr table (JObj [])) (\<lambda>tbl.
       py_get tbl field (JArr [])))"

text \<open>What a method returns when its outer \<open>try\<close> ends with the list \<open>results\<close> and the
  exception \<open>exc\<close>: a caught exception is logged and the list returned.\<close>

definition finish :: "(exn \<Rightarrow> bool) \<Rightarrow> 'a list \<times> exn option \<Rightarrow> 'a list result" where
  "finish caught out =
     (case out of
        (results, None) \<Rightarrow> Return results
      | (results, Some e) \<Rightarrow> if caught e then Return results else Raise e)"

text \<open>Lifting a step that appends nothing: its exception leaves with the list as it is.\<close>

definition step :: "'b result \<Rightarrow> 'a list \<Rightarrow> ('b \<Rightarrow> 'a list \<times> exn option) \<Rightarrow> 'a list \<times> exn option" where
  "step m results k = (case m of Inl e \<Rightarrow> (results, Some e) | Inr x \<Rightarrow> k x)"

subsection \<open>get\_current\_season\_results\<close>

fun season_races_loop :: "world \<Rightarrow> json list \<Rightarrow> RaceResult list \<Rightarrow> RaceResult list \<times> exn option" where
  "season_races_loop w [] results = (results, None)"
| "season_races_loop w (race_data # rest) results =
     (case step (parse_race w race_data) results (\<lambda>race_v.
           step (bindR (py_get race_data ''Results'' (JArr [])) py_iter) results (\<lambda>items.
             collect (parse_race_result race_v) items results)) of
        (results', None) \<Rightarrow> season_races_loop w rest results'
      | (results', Some e) \<Rightarrow>
          if skippable e then season_races_loop w rest results' else (results', Some e))"

definition season_results_of :: "world \<Rightarrow> json \<Rightarrow> RaceResult list result" where
  "season_results_of w data =
     finish (\<lambda>e. e = KeyError \<or> e = TypeError)
       (step (py_in ''MRData'' data) [] (\<lambda>has_envelope.
          if \<not> has_envelope then ([], None)
          else
        step (table_field data ''RaceTable'' ''Races'') [] (\<lambda>races.
        step (py_iter races) [] (\<lambda>items.
          season_races_loop w items []))))"

text \<open>The method, in two parts: its call of \<open>_get_cached_or_fetch\<close>, and what it makes of
  the outcome. The other operations are split in the same way.\<close>

definition fetch_season_results :: "F1DataFetcher \<Rightarrow> int option \<Rightarrow> world \<Rightarrow> json result \<times> world" where
  "fetch_season_results self season_opt w =
     (let season_str = season_str_of season_opt;
          cache_key = ''season_results_'' @ season_str;
          url = BASE_URL @ ''/'' @ season_str @ ''/results.json''
      in get_cached_or_fetch self cache_key url CACHE_TTL_SEASON_RESULTS [(''limit'', 1000)] w)"

definition get_current_season_results ::
  "F1DataFetcher \<Rightarrow> int option \<Rightarrow> world \<Rightarrow> RaceResult list result \<times> world" where
  "get_current_season_results self season_opt w =
     (case fetch_season_results self season_opt w of
        (Inl e, w') \<Rightarrow> if is_RequestException e then (Return [], w') else (Raise e, w')
      | (Inr data, w') \<Rightarrow> (season_results_of w' data, w'))"

subsection \<open>get\_driver\_standings and get\_constructor\_standings\<close>

text \<open>Both methods are the same but for the field of the standings list and the parser
  of an element.\<close>

definition standings_of :: "string \<Rightarrow> (json \<Rightarrow> 'a result) \<Rightarrow> json \<Rightarrow> 'a list result" where
  "standings_of field parse data =
     finish (\<lambda>e. e = KeyError \<or> e = IndexError \<or> e = TypeError)
       (step (py_in ''MRData'' data) [] (\<lambda>has_envelope.
          if \<not> has_envelope then ([], None)
          else
        step (table_field data ''StandingsTable'' ''StandingsLists'') [] (\<lambda>standings_lists.
          if py_falsy standings_lists then ([], None)
          else
        step (py_first standings_lists) [] (\<lambda>standings_list.
        step (py_get standings_list field (JArr [])) [] (\<lambda>standings.
        step (py_iter standings) [] (\<lambda>items.
          collect parse items []))))))"

definition fetch_driver_standings :: "F1DataFetcher \<Rightarrow> int option \<Rightarrow> world \<Rightarrow> json result \<times> world" where
  "fetch_driver_standings self season_opt w =
     (let season_str = season_str_of season_opt;
          cache_key = ''driver_standings_'' @ season_str;
          url = BASE_URL @ ''/'' @ season_str @ ''/driverStandings.json''
      in get_cached_or_fetch self cache_key url CACHE_TTL_STANDINGS [] w)"

definition get_driver_standings ::
  "F1DataFetcher \<Rightarrow> int option \<Rightarrow> world \<Rightarrow> DriverStanding list result \<times> world" where
  "get_driver_standings self season_opt w =
     (case fetch_driver_standings self season_opt w of
        (Inl e, w') \<Rightarrow> if is_RequestException e then (Return [], w') else (Raise e, w')
      | (Inr data, w') \<Rightarrow> (standings_of ''DriverStandings'' parse_driver_standing data, w'))"

definition fetch_constructor_standings ::
  "F1DataFetcher \<Rightarrow> int option \<Rightarrow> world \<Rightarrow> json result \<times> world" where
  "fetch_constructor_standings self season_opt w =
     (let season_str = season_str_of season_opt;
          cache_key = ''constructor_standings_'' @ season_str;
          url = BASE_URL @ ''/'' @ season_str @ ''/constructorStandings.json''
      in get_cached_or_fetch self cache_key url CACHE_TTL_STANDINGS [] w)"

definition get_constructor_standings ::
  "F1DataFetcher \<Rightarrow> int option \<Rightarrow> world \<Rightarrow> ConstructorStanding list result \<times> world" where
  "get_constructor_standings self season_opt w =
     (case fetch_constructor_standings self season_opt w of
        (Inl e, w') \<Rightarrow> if is_RequestException e then (Return [], w') else (Raise e, w')
      | (Inr data, w') \<Rightarrow>
          (standings_of ''ConstructorStandings'' parse_constructor_standing data, w'))"

subsection \<open>get\_qualifying\_results\<close>

definition qualifying_results_of :: "world \<Rightarrow> json \<Rightarrow> QualifyingResult list result" where
  "qualifying_results_of w data =
     finish (\<lambda>e. e = KeyError \<or> e = TypeError)
       (step (py_in ''MRData'' data) [] (\<lambda>has_envelope.
          if \<not> has_envelope then ([], None)
          else
        step (table_field data ''RaceTable'' ''Races'') [] (\<lambda>races.
          if py_falsy races then ([], None)
          else
        step (py_first races) [] (\<lambda>race_data.
          case step (parse_race w race_data) [] (\<lambda>race_v.
                 step (bindR (py_get race_data ''QualifyingResults'' (JArr [])) py_iter) [] (\<lambda>items.
                   collect (parse_qualifying_result race_v) items [])) of
            (results, None) \<Rightarrow> (results, None)
          | (results, Some e) \<Rightarrow> if skippable e then (results, None) else (results, Some e)))))"

definition fetch_qualifying :: "F1DataFetcher \<Rightarrow> int \<Rightarrow> int \<Rightarrow> world \<Rightarrow> json result \<times> world" where
  "fetch_qualifying self season_v round_v w =
     (let cache_key = ''qualifying_'' @ show_int season_v @ ''_'' @ show_int round_v;
          url = BASE_URL @ ''/'' @ show_int season_v @ ''/'' @ show_int round_v @ ''/qualifying.json''
      in get_cached_or_fetch self cache_key url CACHE_TTL_QUALIFYING [] w)"

definition get_qualifying_results ::
  "F1DataFetcher \<Rightarrow> int \<Rightarrow> int \<Rightarrow> world \<Rightarrow> QualifyingResult list result \<times> world" where
  "get_qualifying_results self season_v round_v w =
     (case fetch_qualifying self season_v round_v w of
        (Inl e, w') \<Rightarrow> if is_RequestException e then (Return [], w') else (Raise e, w')
      | (Inr data, w') \<Rightarrow> (qualifying_results_of w' data, w'))"

subsection \<open>get\_circuit\_history\<close>

fun circuit_races_loop ::
  "world \<Rightarrow> int \<Rightarrow> json list \<Rightarrow> RaceResult list \<Rightarrow> RaceResult list \<times> exn option" where
  "circuit_races_loop w cutoff_year [] results = (results, None)"
| "circuit_races_loop w cutoff_year (race_data # rest) results =
     (case step (parse_race w race_data) results (\<lambda>race_v.
           if season race_v \<ge> cutoff_year
           then step (bindR (py_get race_data ''Results'' (JArr [])) py_iter) results (\<lambda>items.
                  collect (parse_race_result race_v) items results)
           else (results, None)) of
        (results', None) \<Rightarrow> circuit_races_loop w cutoff_year rest results'
      | (results', Some e) \<Rightarrow>
          if skippable e then circuit_races_loop w cutoff_year rest results'
          else (results', Some e))"

definition circuit_history_of :: "world \<Rightarrow> int \<Rightarrow> json \<Rightarrow> RaceResult list result" where
  "circuit_history_of w years data =
     finish (\<lambda>e. e = KeyError \<or> e = TypeError)
       (step (py_in ''MRData'' data) [] (\<lambda>has_envelope.
          if \<not> has_envelope then ([], None)
          else
        step (table_field data ''RaceTable'' ''Races'') [] (\<lambda>races.
          (let current_year = year_of w (clock w);
               cutoff_year = current_year - years
           in step (py_iter races) [] (\<lambda>items.
                circuit_races_loop w cutoff_year items [])))))"

definition fetch_circuit_history :: "F1DataFetcher \<Rightarrow> string \<Rightarrow> int \<Rightarrow> world \<Rightarrow> json result \<times> world" where
  "fetch_circuit_history self circuit_id_v years w =
     (let cache_key = ''circuit_history_'' @ circuit_id_v @ ''_'' @ show_int years;
          url = BASE_URL @ ''/circuits/'' @ circuit_id_v @ ''/results.json''
      in get_cached_or_fetch self cache_key url CACHE_TTL_CIRCUIT_HISTORY [(''limit'', years * 30)] w)"

definition get_circuit_history ::
  "F1DataFetcher \<Rightarrow> string \<Rightarrow> int \<Rightarrow> world \<Rightarrow> RaceResult list result \<times> world" where
  "get_circuit_history self circuit_id_v years w =
     (case fetch_circuit_history self circuit_id_v years w of
        (Inl e, w') \<Rightarrow> if is_RequestException e then (Return [], w') else (Raise e, w')
      | (Inr data, w') \<Rightarrow> (circuit_history_of w' years data, w'))"

subsection \<open>get\_next\_race\<close>

text \<open>\<^verbatim>\<open>[f for f in required_fields if f not in race_data]\<close>\<close>

fun missing_fields :: "string list \<Rightarrow> json \<Rightarrow> string list result" where
  "missing_fields [] d = Return []"
| "missing_fields (f # fs) d =
     bindR (py_in f d) (\<lambda>present.
     bindR (missing_fields fs d) (\<lambda>others.
       Return (if present then others else f # others)))"

definition next_race_of :: "world \<Rightarrow> json \<Rightarrow> Race result" where
  "next_race_of w data =
     (case bindR (py_in ''MRData'' data) (\<lambda>has_envelope.
             if \<not> has_envelope then Raise ValueError
             else
           bindR (table_field data ''RaceTable'' ''Races'') (\<lambda>races.
             if py_falsy races then Raise ValueError
             else
           bindR (py_first races) (\<lambda>race_data.
           bindR (missing_fields [''season'', ''round'', ''raceName'', ''Circuit'', ''date'']
                    race_data) (\<lambda>missing.
             if missing \<noteq> [] then Raise ValueError
             else parse_race w race_data)))) of
        Inr race_v \<Rightarrow> Return race_v
      | Inl e \<Rightarrow>
          if e = KeyError \<or> e = IndexError \<or> e = TypeError then Raise ValueError else Raise e)"

definition fetch_next_race :: "F1DataFetcher \<Rightarrow> world \<Rightarrow> json result \<times> world" where
  "fetch_next_race self w =
     (let cache_key = ''next_race'';
          url = BASE_URL @ ''/current/next.json''
      in get_cached_or_fetch self cache_key url CACHE_TTL_NEXT_RACE [] w)"

definition get_next_race :: "F1DataFetcher \<Rightarrow> world \<Rightarrow> Race result \<times> world" where
  "get_next_race self w =
     (case fetch_next_race self w of
        (Inl e, w') \<Rightarrow> if is_RequestException e then (Raise ValueError, w') else (Raise e, w')
      | (Inr data, w') \<Rightarrow> (next_race_of w' data, w'))"

section \<open>Vocabulary of the statements\<close>

text \<open>The characters that the sanitiser maps to the underscore.\<close>

definition slot_char :: "char \<Rightarrow> bool" where
  "slot_char c = (c = CHR ''/'' \<or> c = CHR '':'' \<or> c = CHR ''_'')"

text \<open>A body that the validation of the envelope rejects: not JSON, not an object, or
  an object without \<open>MRData\<close>.\<close>

fun lacks_envelope :: "content \<Rightarrow> bool" where
  "lacks_envelope Garbled = True"
| "lacks_envelope (Doc (JObj kvs)) = (map_of kvs ''MRData'' = None)"
| "lacks_envelope (Doc v) = True"

text \<open>An element of a collection that is a dict without one of the required fields.\<close>

definition lacks_field :: "string list \<Rightarrow> json \<Rightarrow> bool" where
  "lacks_field required v =
     (case v of JObj kvs \<Rightarrow> list_ex (\<lambda>f. map_of kvs f = None) required | _ \<Rightarrow> False)"

text \<open>The collection of a standings response: the list under \<open>field\<close> in the first
  standings list of the envelope.\<close>

definition standings_elements :: "string \<Rightarrow> json \<Rightarrow> json list option" where
  "standings_elements field data =
     (case data of
        JObj kvs \<Rightarrow>
          (case map_of kvs ''MRData'' of
             Some (JObj mr) \<Rightarrow>
               (case map_of mr ''StandingsTable'' of
                  Some (JObj st) \<Rightarrow>
                    (case map_of st ''StandingsLists'' of
                       Some (JArr (JObj sl # others)) \<Rightarrow>
                         (case map_of sl field of Some (JArr items) \<Rightarrow> Some items | _ \<Rightarrow> None)
                     | _ \<Rightarrow> None)
                | _ \<Rightarrow> None)
           | _ \<Rightarrow> None)
      | _ \<Rightarrow> None)"

text \<open>The collection of a response with one race: the race and the list under \<open>field\<close>
  in it.\<close>

definition single_race :: "string \<Rightarrow> json \<Rightarrow> (json \<times> json list) option" where
  "single_race field data =
     (case data of
        JObj kvs \<Rightarrow>
          (case map_of kvs ''MRData'' of
             Some (JObj mr) \<Rightarrow>
               (case map_of mr ''RaceTable'' of
                  Some (JObj rt) \<Rightarrow>
                    (case map_of rt ''Races'' of
                       Some (JArr [JObj rkvs]) \<Rightarrow>
                         (case map_of rkvs field of
                            Some (JArr items) \<Rightarrow> Some (JObj rkvs, items)
                          | _ \<Rightarrow> None)
                     | _ \<Rightarrow> None)
                | _ \<Rightarrow> None)
           | _ \<Rightarrow> None)
      | _ \<Rightarrow> None)"

text \<open>An environment to run examples in: an empty cache directory, no operation
  denied, the clock at 0, a provider that refuses every connection.\<close>

definition quiet_world :: world where
  "quiet_world =
     \<lparr> files = (\<lambda>p. None), denied = (\<lambda>operation p. False), clock = 0,
       isoformat = (\<lambda>t. ''1970-01-01T00:00:00''),
       fromisoformat = (\<lambda>s. if s = ''1970-01-01T00:00:00'' then Some 0 else None),
       year_of = (\<lambda>t. 1970),
       provider = (\<lambda>n url ps. Fails ConnectionError),
       calls = 0, backoffs = [], last_request_time = 0 \<rparr>"

text \<open>A provider that answers every call with status 200 and the JSON list \<open>[]\<close>.\<close>

definition list_body_world :: world where
  "list_body_world = quiet_world\<lparr>provider := (\<lambda>n url ps. Responds 200 (Doc (JArr [])))\<rparr>"

text \<open>A cache directory whose file for the key \<open>next_race\<close> decodes to \<open>{"data": {}}\<close>.\<close>

definition incomplete_entry_world :: world where
  "incomplete_entry_world =
     quiet_world\<lparr>files := (\<lambda>q. if q = ''.f1_cache/next_race.json''
                              then Some (Doc (JObj [(''data'', JObj [])])) else None)\<rparr>"

text \<open>Sample payloads in the provider's format, and an environment in June 2024 whose
  provider answers every call with status 200 and a given document.\<close>

definition sample_driver :: json where
  "sample_driver =
     JObj [(''driverId'', JStr ''leclerc''), (''code'', JStr ''LEC''),
           (''givenName'', JStr ''Charles''), (''familyName'', JStr ''Leclerc''),
           (''nationality'', JStr ''Monegasque'')]"

definition sample_constructor :: json where
  "sample_constructor =
     JObj [(''constructorId'', JStr ''ferrari''), (''name'', JStr ''Ferrari''),
           (''nationality'', JStr ''Italian'')]"

definition sample_result :: "string \<Rightarrow> json" where
  "sample_result pos =
     JObj [(''position'', JStr pos), (''points'', JStr ''12.5''), (''grid'', JStr ''1''),
           (''laps'', JStr ''78''), (''status'', JStr ''Finished''),
           (''Driver'', sample_driver), (''Constructor'', sample_constructor)]"

definition sample_qualifying :: "string \<Rightarrow> json" where
  "sample_qualifying pos =
     JObj [(''position'', JStr pos), (''Q1'', JStr ''1:11.584''),
           (''Driver'', sample_driver), (''Constructor'', sample_constructor)]"

definition sample_driver_standing :: "string \<Rightarrow> json" where
  "sample_driver_standing pos =
     JObj [(''position'', JStr pos), (''points'', JStr ''138''), (''wins'', JStr ''1''),
           (''Driver'', sample_driver), (''Constructors'', JArr [sample_constructor])]"

definition sample_constructor_standing :: "string \<Rightarrow> json" where
  "sample_constructor_standing pos =
     JObj [(''position'', JStr pos), (''points'', JStr ''252''), (''wins'', JStr ''2''),
           (''Constructor'', sample_constructor)]"

definition sample_race :: "string \<Rightarrow> string \<Rightarrow> string \<Rightarrow> json list \<Rightarrow> json" where
  "sample_race year day field items =
     JObj [(''season'', JStr year), (''round'', JStr ''8''),
           (''raceName'', JStr ''Monaco Grand Prix''),
           (''Circuit'', JObj [(''circuitId'', JStr ''monaco''),
                              (''circuitName'', JStr ''Circuit de Monaco''),
                              (''Location'', JObj [(''locality'', JStr ''Monte-Carlo''),
                                                  (''country'', JStr ''Monaco'')])]),
           (''date'', JStr day),
           (field, JArr items)]"

definition race_response :: "json \<Rightarrow> json" where
  "race_response race_data =
     JObj [(''MRData'', JObj [(''RaceTable'', JObj [(''Races'', JArr [race_data])])])]"

definition standings_response :: "string \<Rightarrow> json list \<Rightarrow> json" where
  "standings_response field items =
     JObj [(''MRData'',
            JObj [(''StandingsTable'',
                   JObj [(''StandingsLists'', JArr [JObj [(field, JArr items)]])])])]"

definition replying_world :: "json \<Rightarrow> world" where
  "replying_world body =
     \<lparr> files = (\<lambda>p. None), denied = (\<lambda>operation p. False), clock = 1717200000000,
       isoformat = (\<lambda>t. ''2024-06-01T00:00:00''),
       fromisoformat = (\<lambda>s. if s = ''2024-05-26T00:00:00'' then Some 1716681600000
                             else if s = ''1950-05-21T00:00:00'' then Some (- 619056000000)
                             else None),
       year_of = (\<lambda>t. 2024),
       provider = (\<lambda>n url ps. Responds 200 (Doc body)),
       calls = 0, backoffs = [], last_request_time = 0 \<rparr>"

definition no_cache_fetcher :: F1DataFetcher where
  "no_cache_fetcher = \<lparr> cache = \<lparr> cache_dir = ''.f1_cache'' \<rparr>, use_cache = False \<rparr>"

text \<open>Collections of three elements whose second element is a dict with \<open>position\<close>
  only, and a race of 1950.\<close>

definition incomplete_element :: json where
  "incomplete_element = JObj [(''position'', JStr ''2'')]"

definition three_results :: "json list" where
  "three_results = [sample_result ''1'', incomplete_element, sample_result ''3'']"

definition three_qualifying :: "json list" where
  "three_qualifying = [sample_qualifying ''1'', incomplete_element, sample_qualifying ''3'']"

definition three_driver_standings :: "json list" where
  "three_driver_standings =
     [sample_driver_standing ''1'', incomplete_element, sample_driver_standing ''3'']"

definition three_constructor_standings :: "json list" where
  "three_constructor_standings =
     [sample_constructor_standing ''1'', incomplete_element, sample_constructor_standing ''3'']"

definition old_race :: json where
  "old_race = sample_race ''1950'' ''1950-05-21'' ''Results'' three_results"

definition recent_race :: "string \<Rightarrow> json list \<Rightarrow> json" where
  "recent_race field items = sample_race ''2024'' ''2024-05-26'' field items"

definition no_races_response :: json where
  "no_races_response = JObj [(''MRData'', JObj [(''RaceTable'', JObj [(''Races'', JArr [])])])]"

text \<open>Whether a computation returned.\<close>

fun returned :: "'a result \<Rightarrow> bool" where
  "returned (Inr x) = True"
| "returned (Inl e) = False"

section \<open>Properties of the storage name\<close>

lemma safe_key_nth:
  "i < length k \<Longrightarrow> safe_key k ! i = (if slot_char (k ! i) then CHR ''_'' else k ! i)"
  by (simp add: safe_key_def slot_char_def)

lemma safe_key_length: "length (safe_key k) = length k"
  by (simp add: safe_key_def)

lemma safe_key_eq_iff:
  "safe_key k1 = safe_key k2 \<longleftrightarrow>
     length k1 = length k2 \<and>
     (\<forall>i < length k1. k1 ! i = k2 ! i \<or> (slot_char (k1 ! i) \<and> slot_char (k2 ! i)))"
proof
  assume eq: "safe_key k1 = safe_key k2"
  then have len: "length k1 = length k2"
    using safe_key_length by metis
  have "k1 ! i = k2 ! i \<or> (slot_char (k1 ! i) \<and> slot_char (k2 ! i))" if "i < length k1" for i
  proof -
    have "safe_key k1 ! i = safe_key k2 ! i" using eq by simp
    then show ?thesis
      using that len by (simp add: safe_key_nth slot_char_def split: if_splits)
  qed
  with len show "length k1 = length k2 \<and>
     (\<forall>i < length k1. k1 ! i = k2 ! i \<or> (slot_char (k1 ! i) \<and> slot_char (k2 ! i)))"
    by blast
next
  assume h: "length k1 = length k2 \<and>
     (\<forall>i < length k1. k1 ! i = k2 ! i \<or> (slot_char (k1 ! i) \<and> slot_char (k2 ! i)))"
  show "safe_key k1 = safe_key k2"
  proof (rule nth_equalityI)
    show "length (safe_key k1) = length (safe_key k2)"
      using h by (simp add: safe_key_length)
  next
    fix i assume "i < length (safe_key k1)"
    then have i: "i < length k1" by (simp add: safe_key_length)
    with h have "k1 ! i = k2 ! i \<or> (slot_char (k1 ! i) \<and> slot_char (k2 ! i))" by blast
    then show "safe_key k1 ! i = safe_key k2 ! i"
      using i h by (auto simp: safe_key_nth)
  qed
qed

lemma get_cache_path_eq_iff:
  "get_cache_path d k1 = get_cache_path d k2 \<longleftrightarrow> safe_key k1 = safe_key k2"
  by (simp add: get_cache_path_def)

text \<open>
  Claim C4, as stated, at a concrete pair: the keys \<open>a/b\<close> and \<open>a_b\<close> are distinct, the
  first holds a separator, the second differs from it only at that position and holds
  the already safe character \<open>_\<close> there; both get the same storage name.
\<close>

theorem safe_key_collision:
  "''a/b'' \<noteq> ''a_b'' \<and> length ''a/b'' = length ''a_b'' \<and> CHR ''/'' \<in> set ''a/b''
   \<and> ''a/b'' ! 0 = ''a_b'' ! 0 \<and> ''a/b'' ! 1 = CHR ''/'' \<and> ''a_b'' ! 1 = CHR ''_''
   \<and> ''a/b'' ! 2 = ''a_b'' ! 2
   \<and> get_cache_path ''.f1_cache'' ''a/b'' = get_cache_path ''.f1_cache'' ''a_b''"
  by (simp add: get_cache_path_def safe_key_def)

text \<open>
  Claim C4, amended: two distinct keys of the same length get distinct storage names
  when, at every position where they differ, the first key holds \<open>/\<close> or \<open>:\<close> and the
  second holds a character other than \<open>/\<close>, \<open>:\<close> and the replacement character \<open>_\<close>.
\<close>

theorem safe_key_distinct:
  assumes "length k1 = length k2"
    and "k1 \<noteq> k2"
    and "\<forall>i < length k1. k1 ! i \<noteq> k2 ! i \<longrightarrow>
           (k1 ! i = CHR ''/'' \<or> k1 ! i = CHR '':'') \<and> \<not> slot_char (k2 ! i)"
  shows "get_cache_path d k1 \<noteq> get_cache_path d k2"
proof -
  from assms(1,2) obtain i where i: "i < length k1" "k1 ! i \<noteq> k2 ! i"
    using nth_equalityI by blast
  with assms(3) have "\<not> slot_char (k2 ! i)" by blast
  with i show ?thesis
    by (auto simp: get_cache_path_eq_iff safe_key_eq_iff)
qed

theorem safe_key_distinct_witness:
  "get_cache_path ''.f1_cache'' ''a/b:c'' \<noteq> get_cache_path ''.f1_cache'' ''a-b.c''"
  using safe_key_distinct [of "''a/b:c''" "''a-b.c''" "''.f1_cache''"]
  by (simp add: slot_char_def less_Suc_eq nth_Cons')

section \<open>The driver parser\<close>

text \<open>
  Claim C10: a driver payload that is a dict with \<open>driverId\<close>, \<open>givenName\<close>,
  \<open>familyName\<close> and \<open>nationality\<close> but without \<open>code\<close> parses, and the record's code is
  the string \<open>???\<close>.
\<close>

theorem parse_driver_default_code:
  assumes "map_of kvs ''driverId'' = Some v_id"
    and "map_of kvs ''givenName'' = Some v_given"
    and "map_of kvs ''familyName'' = Some v_family"
    and "map_of kvs ''nationality'' = Some v_nat"
    and "map_of kvs ''code'' = None"
  shows "parse_driver (JObj kvs) =
           Return \<lparr> driver_id = v_id, code = JStr ''???'', forename = v_given,
                    surname = v_family, nationality = v_nat \<rparr>"
  using assms by (simp add: parse_driver_def bindR_def)

theorem parse_driver_default_code_witness:
  "parse_driver (JObj [(''driverId'', JStr ''fangio''), (''givenName'', JStr ''Juan''),
                       (''familyName'', JStr ''Fangio''), (''nationality'', JStr ''Argentine'')]) =
     Return \<lparr> driver_id = JStr ''fangio'', code = JStr ''???'', forename = JStr ''Juan'',
              surname = JStr ''Fangio'', nationality = JStr ''Argentine'' \<rparr>"
  using parse_driver_default_code [of
      "[(''driverId'', JStr ''fangio''), (''givenName'', JStr ''Juan''),
        (''familyName'', JStr ''Fangio''), (''nationality'', JStr ''Argentine'')]"
      "JStr ''fangio''" "JStr ''Juan''" "JStr ''Fangio''" "JStr ''Argentine''"]
  by simp

section \<open>The request executor\<close>

declare retry_loop.simps [simp del]

lemma validate_body_lacks: "lacks_envelope b \<Longrightarrow> validate_body b = Raise ValueError"
  by (cases b rule: lacks_envelope.cases) (simp_all add: validate_body_def)

lemma rate_limit_fields [simp]:
  "provider (rate_limit w) = provider w"
  "calls (rate_limit w) = calls w"
  "backoffs (rate_limit w) = backoffs w"
  "files (rate_limit w) = files w"
  "denied (rate_limit w) = denied w"
  "fromisoformat (rate_limit w) = fromisoformat w"
  by (simp_all add: rate_limit_def Let_def)

lemma note_failure_fields [simp]:
  "provider (note_failure n w) = provider w"
  "calls (note_failure n w) = calls w"
  "files (note_failure n w) = files w"
  "denied (note_failure n w) = denied w"
  "fromisoformat (note_failure n w) = fromisoformat w"
  by (simp_all add: note_failure_def backoff_sleep_def)

lemma note_failure_backoffs:
  "backoffs (note_failure n w) = (if Suc n < MAX_RETRIES then backoffs w @ [2 ^ Suc n] else backoffs w)"
  by (simp add: note_failure_def backoff_sleep_def)

lemma retry_loop_exhausted:
  "\<not> retry_count < MAX_RETRIES \<Longrightarrow>
     retry_loop url ps retry_count (Some e) w = (Raise e, w)"
  by (subst retry_loop.simps) simp

text \<open>One turn of the loop, by what the attempt gave.\<close>

lemma retry_loop_return:
  assumes "retry_count < MAX_RETRIES"
    and "attempt (provider w (calls w) url ps) = Return data"
  shows "retry_loop url ps retry_count prev w = (Return data, w\<lparr>calls := Suc (calls w)\<rparr>)"
  using assms by (subst retry_loop.simps) (simp add: requests_get_def)

lemma retry_loop_client_error:
  assumes "retry_count < MAX_RETRIES"
    and "attempt (provider w (calls w) url ps) = Raise (HTTPError status_code)"
    and "400 \<le> status_code" and "status_code < 500"
  shows "retry_loop url ps retry_count prev w = (Raise (HTTPError status_code), w\<lparr>calls := Suc (calls w)\<rparr>)"
  using assms by (subst retry_loop.simps) (simp add: requests_get_def)

lemma retry_loop_retry:
  assumes "retry_count < MAX_RETRIES"
    and "attempt (provider w (calls w) url ps) = Raise e"
    and "is_RequestException e"
    and "\<forall>status_code. e = HTTPError status_code \<longrightarrow> \<not> (400 \<le> status_code \<and> status_code < 500)"
  shows "retry_loop url ps retry_count prev w =
           retry_loop url ps (Suc retry_count) (Some e)
             (note_failure retry_count (w\<lparr>calls := Suc (calls w)\<rparr>))"
  using assms by (subst retry_loop.simps) (cases e; auto simp: requests_get_def)

lemma retry_loop_keeps:
  "files (snd (retry_loop url ps n prev w)) = files w \<and>
   denied (snd (retry_loop url ps n prev w)) = denied w \<and>
   fromisoformat (snd (retry_loop url ps n prev w)) = fromisoformat w"
proof (induction url ps n prev w rule: retry_loop.induct)
  case (1 url ps retry_count last_exception w)
  show ?case
    apply (subst (1 2 3) retry_loop.simps)
    using 1 by (auto simp: requests_get_def split: sum.splits exn.splits option.splits)
qed

lemma make_request_keeps:
  "files (snd (make_request url ps w)) = files w"
  "denied (snd (make_request url ps w)) = denied w"
  "fromisoformat (snd (make_request url ps w)) = fromisoformat w"
  by (simp_all add: make_request_def retry_loop_keeps)


lemma attempt_malformed:
  "\<not> (400 \<le> status_code \<and> status_code < 600) \<Longrightarrow> lacks_envelope b \<Longrightarrow>
     attempt (Responds status_code b) = Raise RequestException"
  by (simp add: attempt_def validate_body_lacks)

lemma attempt_server_error:
  "500 \<le> status_code \<Longrightarrow> status_code < 600 \<Longrightarrow> attempt (Responds status_code b) = Raise (HTTPError status_code)"
  by (simp add: attempt_def)

lemma attempt_client_error:
  "400 \<le> status_code \<Longrightarrow> status_code < 500 \<Longrightarrow> attempt (Responds status_code b) = Raise (HTTPError status_code)"
  by (simp add: attempt_def)

lemma attempt_well_formed:
  "\<not> (400 \<le> status_code \<and> status_code < 600) \<Longrightarrow> map_of kvs ''MRData'' \<noteq> None \<Longrightarrow>
     attempt (Responds status_code (Doc (JObj kvs))) = Return (JObj kvs)"
  by (auto simp: attempt_def validate_body_def)

text \<open>Three failed attempts that all call for a retry: what the loop leaves behind.\<close>

lemma retry_loop_three_failures:
  assumes a1: "attempt (provider w (calls w) url ps) = Raise e1"
    and r1: "is_RequestException e1" "\<forall>status_code. e1 = HTTPError status_code \<longrightarrow> \<not> (400 \<le> status_code \<and> status_code < 500)"
    and a2: "attempt (provider w (Suc (calls w)) url ps) = Raise e2"
    and r2: "is_RequestException e2" "\<forall>status_code. e2 = HTTPError status_code \<longrightarrow> \<not> (400 \<le> status_code \<and> status_code < 500)"
    and a3: "attempt (provider w (Suc (Suc (calls w))) url ps) = Raise e3"
    and r3: "is_RequestException e3" "\<forall>status_code. e3 = HTTPError status_code \<longrightarrow> \<not> (400 \<le> status_code \<and> status_code < 500)"
  shows "retry_loop url ps 0 None w =
           (Raise e3, w\<lparr>calls := calls w + 3, clock := clock w + 6000,
                         backoffs := backoffs w @ [2, 4]\<rparr>)"
proof -
  let ?w1 = "note_failure 0 (w\<lparr>calls := Suc (calls w)\<rparr>)"
  let ?w2 = "note_failure (Suc 0) (?w1\<lparr>calls := Suc (calls ?w1)\<rparr>)"
  let ?w3 = "note_failure (Suc (Suc 0)) (?w2\<lparr>calls := Suc (calls ?w2)\<rparr>)"
  have s1: "retry_loop url ps 0 None w = retry_loop url ps (Suc 0) (Some e1) ?w1"
    using a1 r1 by (intro retry_loop_retry) (simp_all add: MAX_RETRIES_def)
  have s2: "retry_loop url ps (Suc 0) (Some e1) ?w1 = retry_loop url ps (Suc (Suc 0)) (Some e2) ?w2"
    using a2 r2 by (subst retry_loop_retry [where e = e2]) (simp_all add: MAX_RETRIES_def)
  have s3: "retry_loop url ps (Suc (Suc 0)) (Some e2) ?w2 = retry_loop url ps (Suc (Suc (Suc 0))) (Some e3) ?w3"
    using a3 r3 by (subst retry_loop_retry [where e = e3]) (simp_all add: MAX_RETRIES_def)
  have s4: "retry_loop url ps (Suc (Suc (Suc 0))) (Some e3) ?w3 = (Raise e3, ?w3)"
    by (rule retry_loop_exhausted) (simp add: MAX_RETRIES_def)
  have "?w3 = w\<lparr>calls := calls w + 3, clock := clock w + 6000, backoffs := backoffs w @ [2, 4]\<rparr>"
    by (simp add: note_failure_def backoff_sleep_def MAX_RETRIES_def)
  with s1 s2 s3 s4 show ?thesis by simp
qed

lemma retry_loop_two_failures_then_return:
  assumes a1: "attempt (provider w (calls w) url ps) = Raise e1"
    and r1: "is_RequestException e1" "\<forall>status_code. e1 = HTTPError status_code \<longrightarrow> \<not> (400 \<le> status_code \<and> status_code < 500)"
    and a2: "attempt (provider w (Suc (calls w)) url ps) = Raise e2"
    and r2: "is_RequestException e2" "\<forall>status_code. e2 = HTTPError status_code \<longrightarrow> \<not> (400 \<le> status_code \<and> status_code < 500)"
    and a3: "attempt (provider w (Suc (Suc (calls w))) url ps) = Return data"
  shows "retry_loop url ps 0 None w =
           (Return data, w\<lparr>calls := calls w + 3, clock := clock w + 6000,
                            backoffs := backoffs w @ [2, 4]\<rparr>)"
proof -
  let ?w1 = "note_failure 0 (w\<lparr>calls := Suc (calls w)\<rparr>)"
  let ?w2 = "note_failure (Suc 0) (?w1\<lparr>calls := Suc (calls ?w1)\<rparr>)"
  have s1: "retry_loop url ps 0 None w = retry_loop url ps (Suc 0) (Some e1) ?w1"
    using a1 r1 by (intro retry_loop_retry) (simp_all add: MAX_RETRIES_def)
  have s2: "retry_loop url ps (Suc 0) (Some e1) ?w1 = retry_loop url ps (Suc (Suc 0)) (Some e2) ?w2"
    using a2 r2 by (subst retry_loop_retry [where e = e2]) (simp_all add: MAX_RETRIES_def)
  have s3: "retry_loop url ps (Suc (Suc 0)) (Some e2) ?w2 = (Return data, ?w2\<lparr>calls := Suc (calls ?w2)\<rparr>)"
    using a3 by (intro retry_loop_return) (simp_all add: MAX_RETRIES_def)
  have "?w2\<lparr>calls := Suc (calls ?w2)\<rparr> =
          w\<lparr>calls := calls w + 3, clock := clock w + 6000, backoffs := backoffs w @ [2, 4]\<rparr>"
    by (simp add: note_failure_def backoff_sleep_def MAX_RETRIES_def)
  with s1 s2 s3 show ?thesis by simp
qed

text \<open>
  Claim C1, as stated, at a concrete input: the provider answers every call with status
  200 and the JSON list \<open>[]\<close>, which is not an object. The request is not given up after
  one attempt: three calls are made and the loop sleeps 2 and 4 seconds between them.
\<close>

theorem malformed_is_retried:
  "fst (make_request ''https://api.jolpi.ca/ergast/f1/current/next.json'' [] list_body_world)
     = Raise RequestException
   \<and> calls (snd (make_request ''https://api.jolpi.ca/ergast/f1/current/next.json'' [] list_body_world)) = 3
   \<and> backoffs (snd (make_request ''https://api.jolpi.ca/ergast/f1/current/next.json'' [] list_body_world))
     = [2, 4]"
  by (simp add: make_request_def list_body_world_def quiet_world_def rate_limit_def
      RATE_LIMIT_DELAY_def Let_def
      retry_loop.simps [of _ _ 0] retry_loop.simps [of _ _ "Suc 0"]
      retry_loop.simps [of _ _ "Suc (Suc 0)"] retry_loop.simps [of _ _ "Suc (Suc (Suc 0))"]
      MAX_RETRIES_def requests_get_def attempt_def validate_body_def note_failure_def backoff_sleep_def)

text \<open>
  Claim C1, amended: a response with a success status whose body is not a JSON object
  or lacks \<open>MRData\<close> counts as a failed attempt and is retried with the backoff of a
  transport failure; when all three attempts of the budget are such responses,
  \<open>_make_request\<close> raises the \<open>RequestException\<close> of the malformed response after exactly
  three attempts and backoff sleeps of 2 and 4 seconds.
\<close>

theorem malformed_exhausts_budget:
  assumes "provider w (calls w) url ps = Responds s1 b1"
    and "\<not> (400 \<le> s1 \<and> s1 < 600)" and "lacks_envelope b1"
    and "provider w (Suc (calls w)) url ps = Responds s2 b2"
    and "\<not> (400 \<le> s2 \<and> s2 < 600)" and "lacks_envelope b2"
    and "provider w (Suc (Suc (calls w))) url ps = Responds s3 b3"
    and "\<not> (400 \<le> s3 \<and> s3 < 600)" and "lacks_envelope b3"
  shows "fst (make_request url ps w) = Raise RequestException
       \<and> calls (snd (make_request url ps w)) = calls w + 3
       \<and> backoffs (snd (make_request url ps w)) = backoffs w @ [2, 4]"
  using assms
  by (simp add: make_request_def attempt_malformed
      retry_loop_three_failures [where ?e1.0 = RequestException and ?e2.0 = RequestException
        and ?e3.0 = RequestException])

text \<open>
  Claim C5: a 5xx status on the first two attempts and a well-formed success response
  on the third: \<open>_make_request\<close> returns the parsed body, has slept \<open>2^1\<close> and \<open>2^2\<close> seconds
  between the attempts, and has made exactly three calls.
\<close>

theorem server_errors_then_success:
  assumes "provider w (calls w) url ps = Responds s1 b1" and "500 \<le> s1" and "s1 < 600"
    and "provider w (Suc (calls w)) url ps = Responds s2 b2" and "500 \<le> s2" and "s2 < 600"
    and "provider w (Suc (Suc (calls w))) url ps = Responds s3 (Doc (JObj kvs))"
    and "\<not> (400 \<le> s3 \<and> s3 < 600)" and "map_of kvs ''MRData'' \<noteq> None"
  shows "fst (make_request url ps w) = Return (JObj kvs)
       \<and> calls (snd (make_request url ps w)) = calls w + 3
       \<and> backoffs (snd (make_request url ps w)) = backoffs w @ [2 ^ 1, 2 ^ 2]
       \<and> clock (snd (make_request url ps w)) = clock (rate_limit w) + 2000 + 4000"
  using assms
  by (simp add: make_request_def attempt_server_error attempt_well_formed
      retry_loop_two_failures_then_return [where ?e1.0 = "HTTPError s1" and ?e2.0 = "HTTPError s2"])

text \<open>
  Claim C6: a 4xx status on the first attempt: \<open>_make_request\<close> raises the HTTPError at
  once, after exactly one call and without a backoff sleep.
\<close>

theorem client_error_not_retried:
  assumes "provider w (calls w) url ps = Responds status_code b"
    and "400 \<le> status_code" and "status_code < 500"
  shows "fst (make_request url ps w) = Raise (HTTPError status_code)
       \<and> calls (snd (make_request url ps w)) = calls w + 1
       \<and> backoffs (snd (make_request url ps w)) = backoffs w"
  using assms
  by (simp add: make_request_def attempt_client_error
      retry_loop_client_error [where status_code = status_code] MAX_RETRIES_def)

theorem malformed_exhausts_budget_witness:
  "(let w0 = quiet_world\<lparr>provider := (\<lambda>n url ps. Responds 200 (Doc (JObj [(''status'', JStr ''ok'')])))\<rparr>;
        r = make_request ''u'' [] w0
    in fst r = Raise RequestException \<and> calls (snd r) = 3 \<and> backoffs (snd r) = [2, 4])"
  using malformed_exhausts_budget [of
      "quiet_world\<lparr>provider := (\<lambda>n url ps. Responds 200 (Doc (JObj [(''status'', JStr ''ok'')])))\<rparr>"
      "''u''" "[]" 200 "Doc (JObj [(''status'', JStr ''ok'')])" 200 "Doc (JObj [(''status'', JStr ''ok'')])"
      200 "Doc (JObj [(''status'', JStr ''ok'')])"]
  by (simp add: quiet_world_def Let_def)

theorem server_errors_then_success_witness:
  "(let w0 = quiet_world\<lparr>provider := (\<lambda>n url ps. if n < 2 then Responds 500 Garbled
                                        else Responds 200 (Doc (JObj [(''MRData'', JObj [])])))\<rparr>;
        r = make_request ''u'' [] w0
    in fst r = Return (JObj [(''MRData'', JObj [])]) \<and> calls (snd r) = 3 \<and> backoffs (snd r) = [2, 4])"
  using server_errors_then_success [of
      "quiet_world\<lparr>provider := (\<lambda>n url ps. if n < 2 then Responds 500 Garbled
                                        else Responds 200 (Doc (JObj [(''MRData'', JObj [])])))\<rparr>"
      "''u''" "[]" 500 Garbled 500 Garbled 200 "[(''MRData'', JObj [])]"]
  by (simp add: quiet_world_def Let_def)

theorem client_error_not_retried_witness:
  "(let w0 = quiet_world\<lparr>provider := (\<lambda>n url ps. Responds 404 Garbled)\<rparr>;
        r = make_request ''u'' [] w0
    in fst r = Raise (HTTPError 404) \<and> calls (snd r) = 1 \<and> backoffs (snd r) = [])"
  using client_error_not_retried [of "quiet_world\<lparr>provider := (\<lambda>n url ps. Responds 404 Garbled)\<rparr>"
      "''u''" "[]" 404 Garbled]
  by (simp add: quiet_world_def Let_def)

section \<open>The cache store\<close>

lemma get_try_unreadable:
  "denied w OpRead p \<Longrightarrow> get_try w p ig = Raise OSError"
  by (simp add: get_try_def json_load_def bindR_def)

lemma get_try_garbled:
  "\<not> denied w OpRead p \<Longrightarrow> files w p = Some Garbled \<Longrightarrow> get_try w p ig = Raise ValueError"
  by (simp add: get_try_def json_load_def bindR_def)

lemma get_try_incomplete:
  "\<not> denied w OpRead p \<Longrightarrow> files w p = Some (Doc (JObj kvs)) \<Longrightarrow>
   map_of kvs ''data'' = None \<or> map_of kvs ''expires_at'' = None \<Longrightarrow>
     get_try w p ig = Return JNull"
  by (auto simp: get_try_def json_load_def bindR_def)

lemma get_try_entry:
  "\<not> denied w OpRead p \<Longrightarrow> files w p = Some (Doc (JObj kvs)) \<Longrightarrow>
   map_of kvs ''data'' = Some d \<Longrightarrow> map_of kvs ''expires_at'' = Some (JStr s) \<Longrightarrow>
   fromisoformat w s = Some t \<Longrightarrow>
     get_try w p ig = Return (if \<not> ig \<and> clock w > t then JNull else d)"
  by (auto simp: get_try_def json_load_def bindR_def)

lemma get_entry:
  assumes "\<not> denied w OpRead (get_cache_path (cache_dir self) key)"
    and "files w (get_cache_path (cache_dir self) key) = Some (Doc (JObj kvs))"
    and "map_of kvs ''data'' = Some d" and "map_of kvs ''expires_at'' = Some (JStr s)"
    and "fromisoformat w s = Some t"
  shows "get self key ig w = (Return (if \<not> ig \<and> clock w > t then JNull else d), w)"
  using assms by (simp add: get_def Let_def get_try_entry [where d = d and s = s and t = t])

lemma get_missing:
  "files w (get_cache_path (cache_dir self) key) = None \<Longrightarrow> get self key ig w = (Return JNull, w)"
  by (simp add: get_def)

text \<open>
  Claim C2, as stated, at a concrete input: the file of the key decodes to the JSON
  object \<open>{"data": {}}\<close>, which has no \<open>expires_at\<close>. \<open>get\<close> returns None, and the file is
  still in storage afterwards.
\<close>

theorem incomplete_entry_is_kept:
  "fst (get \<lparr>cache_dir = ''.f1_cache''\<rparr> ''next_race'' False incomplete_entry_world) = Return JNull
   \<and> files (snd (get \<lparr>cache_dir = ''.f1_cache''\<rparr> ''next_race'' False incomplete_entry_world))
        ''.f1_cache/next_race.json'' = Some (Doc (JObj [(''data'', JObj [])]))"
  by (simp add: get_def get_cache_path_def safe_key_def get_try_def json_load_def bindR_def
      incomplete_entry_world_def quiet_world_def)

text \<open>
  Claim C2, amended: for a key whose file cannot be read or decoded, \<open>get\<close> returns None
  without raising and removes the file (when the unlink is permitted); for a key whose
  file decodes to a JSON object without \<open>data\<close> or without \<open>expires_at\<close>, \<open>get\<close> returns
  None without raising and leaves storage as it is.
\<close>

theorem corrupt_entry_is_absent:
  assumes "files w (get_cache_path (cache_dir self) key) = Some c"
  shows "(denied w OpRead (get_cache_path (cache_dir self) key) \<or> c = Garbled \<longrightarrow>
            fst (get self key ig w) = Return JNull
          \<and> (\<not> denied w OpUnlink (get_cache_path (cache_dir self) key) \<longrightarrow>
               files (snd (get self key ig w)) (get_cache_path (cache_dir self) key) = None))
       \<and> (\<not> denied w OpRead (get_cache_path (cache_dir self) key) \<and> c = Doc (JObj kvs)
            \<and> (map_of kvs ''data'' = None \<or> map_of kvs ''expires_at'' = None) \<longrightarrow>
            get self key ig w = (Return JNull, w))"
proof (intro conjI impI)
  let ?p = "get_cache_path (cache_dir self) key"
  assume bad: "denied w OpRead ?p \<or> c = Garbled"
  then have t: "get_try w ?p ig = Raise OSError \<or> get_try w ?p ig = Raise ValueError"
    using assms get_try_unreadable get_try_garbled by metis
  then have g: "get self key ig w = (Return JNull, unlink_quietly ?p w)"
    using assms by (auto simp: get_def Let_def)
  then show "fst (get self key ig w) = Return JNull" by simp
  assume "\<not> denied w OpUnlink ?p"
  with g assms show "files (snd (get self key ig w)) ?p = None"
    by (simp add: unlink_quietly_def)
next
  let ?p = "get_cache_path (cache_dir self) key"
  assume h: "\<not> denied w OpRead ?p \<and> c = Doc (JObj kvs)
            \<and> (map_of kvs ''data'' = None \<or> map_of kvs ''expires_at'' = None)"
  then have "get_try w ?p ig = Return JNull"
    using assms get_try_incomplete by blast
  then show "get self key ig w = (Return JNull, w)"
    using assms by (simp add: get_def Let_def)
qed

theorem corrupt_entry_is_absent_witness:
  "(let p = get_cache_path ''.f1_cache'' ''next_race'';
        w0 = quiet_world\<lparr>files := (\<lambda>q. if q = p then Some Garbled else None)\<rparr>;
        w1 = quiet_world\<lparr>files := (\<lambda>q. if q = p then Some (Doc (JObj [(''data'', JObj [])])) else None)\<rparr>
    in fst (get \<lparr>cache_dir = ''.f1_cache''\<rparr> ''next_race'' False w0) = Return JNull
     \<and> files (snd (get \<lparr>cache_dir = ''.f1_cache''\<rparr> ''next_race'' False w0)) p = None
     \<and> get \<lparr>cache_dir = ''.f1_cache''\<rparr> ''next_race'' False w1 = (Return JNull, w1))"
  using corrupt_entry_is_absent [of
      "quiet_world\<lparr>files := (\<lambda>q. if q = get_cache_path ''.f1_cache'' ''next_race'' then Some Garbled else None)\<rparr>"
      "\<lparr>cache_dir = ''.f1_cache''\<rparr>" "''next_race''" Garbled False "[]"]
    corrupt_entry_is_absent [of
      "quiet_world\<lparr>files := (\<lambda>q. if q = get_cache_path ''.f1_cache'' ''next_race''
                                  then Some (Doc (JObj [(''data'', JObj [])])) else None)\<rparr>"
      "\<lparr>cache_dir = ''.f1_cache''\<rparr>" "''next_race''" "Doc (JObj [(''data'', JObj [])])" False
      "[(''data'', JObj [])]"]
  by (simp add: quiet_world_def Let_def)

text \<open>
  Claim C7: after \<open>set(k, p, ttl)\<close> has written its entry, at any later clock value \<open>t\<close>:
  once the clock is past the entry's \<open>expires_at\<close> (so for every \<open>ttl \<le> 0\<close> as soon as the
  clock has moved on), \<open>get(k)\<close> returns None and changes nothing; \<open>get(k, ignore_ttl=True)\<close>
  returns \<open>p\<close>; the file still holds the entry; and \<open>get(k)\<close> serves a payload \<open>p\<close> exactly
  when \<open>t \<le> expires_at\<close>.
\<close>

theorem expired_entry_is_kept:
  assumes "\<not> denied w OpWrite (get_cache_path (cache_dir self) k)"
    and "\<not> denied w OpRead (get_cache_path (cache_dir self) k)"
    and "fromisoformat w (isoformat w (clock w + 1000 * ttl)) = Some (clock w + 1000 * ttl)"
  shows "(let w1 = (set_entry self k p ttl w)\<lparr>clock := t\<rparr> in
            ((ttl \<le> 0 \<and> clock w < t) \<or> clock w + 1000 * ttl < t \<longrightarrow>
               get self k False w1 = (Return JNull, w1))
          \<and> get self k True w1 = (Return p, w1)
          \<and> files w1 (get_cache_path (cache_dir self) k) = Some (Doc (cache_entry_of w p ttl))
          \<and> (p \<noteq> JNull \<longrightarrow>
               (fst (get self k False w1) = Return p \<longleftrightarrow> t \<le> clock w + 1000 * ttl)))"
proof -
  let ?path = "get_cache_path (cache_dir self) k"
  let ?w1 = "(set_entry self k p ttl w)\<lparr>clock := t\<rparr>"
  let ?kvs = "[(''data'', p), (''cached_at'', JStr (isoformat w (clock w))),
               (''expires_at'', JStr (isoformat w (clock w + 1000 * ttl))), (''ttl'', JNum ttl)]"
  have f: "files ?w1 ?path = Some (Doc (JObj ?kvs))"
    using assms(1) by (simp add: set_entry_def Let_def cache_entry_of_def)
  have d: "\<not> denied ?w1 OpRead ?path"
    using assms(1,2) by (simp add: set_entry_def Let_def)
  have c: "fromisoformat ?w1 (isoformat w (clock w + 1000 * ttl)) = Some (clock w + 1000 * ttl)"
    using assms(1,3) by (simp add: set_entry_def Let_def)
  have g: "get self k ig ?w1 =
             (Return (if \<not> ig \<and> clock ?w1 > clock w + 1000 * ttl then JNull else p), ?w1)" for ig
    by (rule get_entry [OF d f _ _ c]) simp_all
  have "ttl \<le> 0 \<and> clock w < t \<Longrightarrow> clock w + 1000 * ttl < t" by simp
  then show ?thesis
    using f by (auto simp: Let_def g cache_entry_of_def)
qed


theorem expired_entry_is_kept_witness:
  "(let self = \<lparr>cache_dir = ''.f1_cache''\<rparr>;
        w = quiet_world\<lparr>clock := 5000\<rparr>;
        p = JObj [(''MRData'', JObj [])];
        w1 = set_entry self ''next_race'' p (- 5) w
    in get self ''next_race'' False w1 = (Return JNull, w1)
     \<and> get self ''next_race'' True w1 = (Return p, w1)
     \<and> files w1 (get_cache_path ''.f1_cache'' ''next_race'') = Some (Doc (cache_entry_of w p (- 5))))"
  using expired_entry_is_kept [where w = "quiet_world\<lparr>clock := 5000\<rparr>"
      and self = "\<lparr>cache_dir = ''.f1_cache''\<rparr>" and k = "''next_race''" and ttl = "- 5"
      and p = "JObj [(''MRData'', JObj [])]" and t = 5000]
  by (simp add: quiet_world_def Let_def set_entry_def)

section \<open>The orchestrator\<close>

text \<open>
  Claim C3: caching enabled and the live request ends in a request failure \<open>e\<close>. If the
  file of the key holds an entry (an object with a payload and a readable
  \<open>expires_at\<close>, fresh or expired), \<open>_get_cached_or_fetch\<close> returns the entry's payload;
  if the key has no file, it raises \<open>e\<close> itself.
\<close>

theorem stale_fallback:
  assumes "use_cache self"
    and "\<not> denied w OpRead (get_cache_path (cache_dir (cache self)) key)"
    and "fst (make_request url ps w) = Raise e"
    and "is_RequestException e"
  shows "(files w (get_cache_path (cache_dir (cache self)) key) = Some (Doc (JObj kvs))
            \<and> map_of kvs ''data'' = Some d \<and> d \<noteq> JNull
            \<and> map_of kvs ''expires_at'' = Some (JStr s) \<and> fromisoformat w s = Some t \<longrightarrow>
            fst (get_cached_or_fetch self key url ttl ps w) = Return d)
       \<and> (files w (get_cache_path (cache_dir (cache self)) key) = None \<longrightarrow>
            fst (get_cached_or_fetch self key url ttl ps w) = Raise e)"
proof (intro conjI impI)
  let ?p = "get_cache_path (cache_dir (cache self)) key"
  obtain w2 where mr: "make_request url ps w = (Raise e, w2)"
    using assms(3) by (cases "make_request url ps w") auto
  have keep: "files w2 = files w" "denied w2 = denied w" "fromisoformat w2 = fromisoformat w"
    using make_request_keeps [of url ps w] mr by simp_all
  {
    assume h: "files w ?p = Some (Doc (JObj kvs)) \<and> map_of kvs ''data'' = Some d \<and> d \<noteq> JNull
               \<and> map_of kvs ''expires_at'' = Some (JStr s) \<and> fromisoformat w s = Some t"
    have g1: "get (cache self) key False w = (Return (if clock w > t then JNull else d), w)"
      using get_entry [of w "cache self" key kvs d s t False] assms(2) h by simp
    have g2: "get (cache self) key True w2 = (Return d, w2)"
      using get_entry [of w2 "cache self" key kvs d s t True] assms(2) h keep by simp
    show "fst (get_cached_or_fetch self key url ttl ps w) = Return d"
      using assms(1,4) h by (simp add: get_cached_or_fetch_def g1 g2 mr)
  }
  {
    assume h: "files w ?p = None"
    have g1: "get (cache self) key False w = (Return JNull, w)"
      using h by (rule get_missing)
    have g2: "get (cache self) key True w2 = (Return JNull, w2)"
      using h keep by (simp add: get_missing)
    show "fst (get_cached_or_fetch self key url ttl ps w) = Raise e"
      using assms(1,4) by (simp add: get_cached_or_fetch_def g1 g2 mr)
  }
qed


lemma make_request_refused:
  assumes "provider w = (\<lambda>n url ps. Fails ConnectionError)"
  shows "fst (make_request url ps w) = Raise ConnectionError"
  using assms
  by (simp add: make_request_def attempt_def
      retry_loop_three_failures [where ?e1.0 = ConnectionError and ?e2.0 = ConnectionError
        and ?e3.0 = ConnectionError])

theorem stale_fallback_witness:
  "(let self = \<lparr>cache = \<lparr>cache_dir = ''.f1_cache''\<rparr>, use_cache = True\<rparr>;
        payload = JObj [(''MRData'', JObj [])];
        entry = JObj [(''data'', payload), (''expires_at'', JStr ''1970-01-01T00:00:00'')];
        w = quiet_world\<lparr>clock := 5000,
              files := (\<lambda>q. if q = get_cache_path ''.f1_cache'' ''next_race''
                              then Some (Doc entry) else None)\<rparr>
    in fst (get_cached_or_fetch self ''next_race'' ''u'' 3600 [] w) = Return payload
     \<and> fst (get_cached_or_fetch self ''next_race'' ''u'' 3600 [] quiet_world) = Raise ConnectionError)"
  using stale_fallback [where self = "\<lparr>cache = \<lparr>cache_dir = ''.f1_cache''\<rparr>, use_cache = True\<rparr>"
      and key = "''next_race''" and url = "''u''" and ps = "[]" and ttl = 3600
      and e = ConnectionError and d = "JObj [(''MRData'', JObj [])]"
      and s = "''1970-01-01T00:00:00''" and t = 0
      and kvs = "[(''data'', JObj [(''MRData'', JObj [])]), (''expires_at'', JStr ''1970-01-01T00:00:00'')]"
      and w = "quiet_world\<lparr>clock := 5000,
              files := (\<lambda>q. if q = get_cache_path ''.f1_cache'' ''next_race''
                              then Some (Doc (JObj [(''data'', JObj [(''MRData'', JObj [])]),
                                                    (''expires_at'', JStr ''1970-01-01T00:00:00'')]))
                              else None)\<rparr>"]
    stale_fallback [where self = "\<lparr>cache = \<lparr>cache_dir = ''.f1_cache''\<rparr>, use_cache = True\<rparr>"
      and key = "''next_race''" and url = "''u''" and ps = "[]" and ttl = 3600
      and e = ConnectionError and w = quiet_world]
    make_request_refused [of quiet_world "''u''" "[]"]
    make_request_refused [of "quiet_world\<lparr>clock := 5000,
              files := (\<lambda>q. if q = get_cache_path ''.f1_cache'' ''next_race''
                              then Some (Doc (JObj [(''data'', JObj [(''MRData'', JObj [])]),
                                                    (''expires_at'', JStr ''1970-01-01T00:00:00'')]))
                              else None)\<rparr>" "''u''" "[]"]
  by (simp add: quiet_world_def Let_def)

section \<open>The collection loops\<close>

lemma require_fields_lacks:
  "list_ex (\<lambda>f. map_of kvs f = None) required \<Longrightarrow> require_fields required (JObj kvs) = Raise ValueError"
  by (induction required) (auto simp: bindR_def)

lemma lacks_field_require:
  "lacks_field required v \<Longrightarrow> require_fields required v = Raise ValueError"
  by (cases v) (simp_all add: lacks_field_def require_fields_lacks)

lemma collect_all_parsed:
  "list_all2 (\<lambda>x r. parse x = Return r) xs rs \<Longrightarrow> collect parse xs acc = (acc @ rs, None)"
  by (induction xs rs arbitrary: acc rule: list_all2_induct) simp_all

lemma collect_skips_one:
  assumes "list_all2 (\<lambda>x r. parse x = Return r) (xs @ ys) rs"
    and "parse bad = Raise e" and "skippable e"
  shows "collect parse (xs @ bad # ys) acc = (acc @ rs, None)"
  using assms(1)
proof (induction xs arbitrary: acc rs)
  case Nil
  then show ?case using assms(2,3) by (simp add: collect_all_parsed)
next
  case (Cons x xs)
  then obtain r rs' where "rs = r # rs'" "parse x = Return r"
    "list_all2 (\<lambda>x r. parse x = Return r) (xs @ ys) rs'"
    by (auto simp: list_all2_Cons1)
  then show ?case using Cons.IH [of rs' "acc @ [r]"] by simp
qed

lemma standings_of_elements:
  "standings_elements field data = Some items \<Longrightarrow> collect parse items [] = (rs, None) \<Longrightarrow>
     standings_of field parse data = Return rs"
  by (auto simp: standings_elements_def standings_of_def step_def table_field_def bindR_def
      finish_def split: json.splits option.splits list.splits)

lemma season_results_single_race:
  "single_race ''Results'' data = Some (race_data, items) \<Longrightarrow>
   parse_race w race_data = Return race_v \<Longrightarrow>
   collect (parse_race_result race_v) items [] = (rs, None) \<Longrightarrow>
     season_results_of w data = Return rs"
  by (auto simp: single_race_def season_results_of_def step_def table_field_def bindR_def
      finish_def split: json.splits option.splits list.splits)

lemma qualifying_single_race:
  "single_race ''QualifyingResults'' data = Some (race_data, items) \<Longrightarrow>
   parse_race w race_data = Return race_v \<Longrightarrow>
   collect (parse_qualifying_result race_v) items [] = (rs, None) \<Longrightarrow>
     qualifying_results_of w data = Return rs"
  by (auto simp: single_race_def qualifying_results_of_def step_def table_field_def bindR_def
      finish_def split: json.splits option.splits list.splits)

lemma circuit_history_single_race:
  "single_race ''Results'' data = Some (race_data, items) \<Longrightarrow>
   parse_race w race_data = Return race_v \<Longrightarrow>
   collect (parse_race_result race_v) items [] = (rs, None) \<Longrightarrow>
     circuit_history_of w years data =
       Return (if season race_v \<ge> year_of w (clock w) - years then rs else [])"
  by (auto simp: single_race_def circuit_history_of_def step_def table_field_def bindR_def Let_def
      finish_def split: json.splits option.splits list.splits)

lemma parse_race_result_lacks:
  "lacks_field [''Driver'', ''Constructor'', ''position'', ''points'', ''grid'', ''laps'', ''status''] bad
     \<Longrightarrow> parse_race_result race_v bad = Raise ValueError"
  by (simp add: parse_race_result_def lacks_field_require bindR_def del: require_fields.simps)

lemma parse_qualifying_result_lacks:
  "lacks_field [''Driver'', ''Constructor'', ''position''] bad
     \<Longrightarrow> parse_qualifying_result race_v bad = Raise ValueError"
  by (simp add: parse_qualifying_result_def lacks_field_require bindR_def del: require_fields.simps)

lemma parse_driver_standing_lacks:
  "lacks_field [''Driver'', ''Constructors'', ''position'', ''points'', ''wins''] bad
     \<Longrightarrow> parse_driver_standing bad = Raise ValueError"
  by (simp add: parse_driver_standing_def lacks_field_require bindR_def del: require_fields.simps)

lemma parse_constructor_standing_lacks:
  "lacks_field [''Constructor'', ''position'', ''points'', ''wins''] bad
     \<Longrightarrow> parse_constructor_standing bad = Raise ValueError"
  by (simp add: parse_constructor_standing_def lacks_field_require bindR_def del: require_fields.simps)

lemma returned_projr: "returned m \<Longrightarrow> m = Return (projr m)"
  by (cases m) simp_all

lemma fst_pair: "fst p = a \<Longrightarrow> p = (a, snd p)"
  by (cases p) simp

text \<open>
  Claim C8, as stated, at a concrete input: in June 2024 the provider answers the
  request for the history of a circuit over 5 years with one race of 1950 that holds
  three results; the first and the third parse and the second lacks required fields.
  The operation returns no record at all, not the two of the valid elements.
\<close>

theorem old_race_history_is_empty:
  "fst (get_circuit_history no_cache_fetcher ''monaco'' 5 (replying_world (race_response old_race)))
     = Return []
   \<and> single_race ''Results'' (race_response old_race) = Some (old_race, three_results)
   \<and> three_results = [sample_result ''1'', incomplete_element, sample_result ''3'']
   \<and> lacks_field [''Driver'', ''Constructor'', ''position'', ''points'', ''grid'', ''laps'', ''status'']
        incomplete_element
   \<and> returned (bindR (parse_race (replying_world (race_response old_race)) old_race)
        (\<lambda>r. parse_race_result r (sample_result ''1'')))
   \<and> returned (bindR (parse_race (replying_world (race_response old_race)) old_race)
        (\<lambda>r. parse_race_result r (sample_result ''3'')))"
  by code_simp

text \<open>
  Claim C8, amended: the response holds a collection in which one element is a dict
  without one of the required fields and every other element parses. Then each of the
  five operations returns exactly the records of the other elements, in order, and
  does not raise; for the circuit history this holds when the season of the race is
  not before the cutoff year (the current year minus \<open>years\<close>).
\<close>

theorem malformed_element_is_skipped:
  "(fetch_season_results self season_opt w = (Return data, w')
      \<and> single_race ''Results'' data = Some (race_data, xs @ bad # ys)
      \<and> parse_race w' race_data = Return race_v
      \<and> lacks_field [''Driver'', ''Constructor'', ''position'', ''points'', ''grid'', ''laps'', ''status''] bad
      \<and> list_all2 (\<lambda>x r. parse_race_result race_v x = Return r) (xs @ ys) rs
      \<longrightarrow> get_current_season_results self season_opt w = (Return rs, w'))
   \<and> (fetch_driver_standings self season_opt w = (Return data, w')
      \<and> standings_elements ''DriverStandings'' data = Some (xs @ bad # ys)
      \<and> lacks_field [''Driver'', ''Constructors'', ''position'', ''points'', ''wins''] bad
      \<and> list_all2 (\<lambda>x r. parse_driver_standing x = Return r) (xs @ ys) ds
      \<longrightarrow> get_driver_standings self season_opt w = (Return ds, w'))
   \<and> (fetch_constructor_standings self season_opt w = (Return data, w')
      \<and> standings_elements ''ConstructorStandings'' data = Some (xs @ bad # ys)
      \<and> lacks_field [''Constructor'', ''position'', ''points'', ''wins''] bad
      \<and> list_all2 (\<lambda>x r. parse_constructor_standing x = Return r) (xs @ ys) cs
      \<longrightarrow> get_constructor_standings self season_opt w = (Return cs, w'))
   \<and> (fetch_qualifying self season_v round_v w = (Return data, w')
      \<and> single_race ''QualifyingResults'' data = Some (race_data, xs @ bad # ys)
      \<and> parse_race w' race_data = Return race_v
      \<and> lacks_field [''Driver'', ''Constructor'', ''position''] bad
      \<and> list_all2 (\<lambda>x r. parse_qualifying_result race_v x = Return r) (xs @ ys) qs
      \<longrightarrow> get_qualifying_results self season_v round_v w = (Return qs, w'))
   \<and> (fetch_circuit_history self circuit_id_v years w = (Return data, w')
      \<and> single_race ''Results'' data = Some (race_data, xs @ bad # ys)
      \<and> parse_race w' race_data = Return race_v
      \<and> season race_v \<ge> year_of w' (clock w') - years
      \<and> lacks_field [''Driver'', ''Constructor'', ''position'', ''points'', ''grid'', ''laps'', ''status''] bad
      \<and> list_all2 (\<lambda>x r. parse_race_result race_v x = Return r) (xs @ ys) rs
      \<longrightarrow> get_circuit_history self circuit_id_v years w = (Return rs, w'))"
proof (intro conjI impI)
  assume h: "fetch_season_results self season_opt w = (Return data, w')
      \<and> single_race ''Results'' data = Some (race_data, xs @ bad # ys)
      \<and> parse_race w' race_data = Return race_v
      \<and> lacks_field [''Driver'', ''Constructor'', ''position'', ''points'', ''grid'', ''laps'', ''status''] bad
      \<and> list_all2 (\<lambda>x r. parse_race_result race_v x = Return r) (xs @ ys) rs"
  then have "collect (parse_race_result race_v) (xs @ bad # ys) [] = (rs, None)"
    using collect_skips_one [of "parse_race_result race_v" xs ys rs bad ValueError "[]"]
    by (simp add: parse_race_result_lacks)
  with h have "season_results_of w' data = Return rs"
    using season_results_single_race by blast
  with h show "get_current_season_results self season_opt w = (Return rs, w')"
    by (simp add: get_current_season_results_def)
next
  assume h: "fetch_driver_standings self season_opt w = (Return data, w')
      \<and> standings_elements ''DriverStandings'' data = Some (xs @ bad # ys)
      \<and> lacks_field [''Driver'', ''Constructors'', ''position'', ''points'', ''wins''] bad
      \<and> list_all2 (\<lambda>x r. parse_driver_standing x = Return r) (xs @ ys) ds"
  then have "collect parse_driver_standing (xs @ bad # ys) [] = (ds, None)"
    using collect_skips_one [of parse_driver_standing xs ys ds bad ValueError "[]"]
    by (simp add: parse_driver_standing_lacks)
  with h have "standings_of ''DriverStandings'' parse_driver_standing data = Return ds"
    using standings_of_elements by blast
  with h show "get_driver_standings self season_opt w = (Return ds, w')"
    by (simp add: get_driver_standings_def)
next
  assume h: "fetch_constructor_standings self season_opt w = (Return data, w')
      \<and> standings_elements ''ConstructorStandings'' data = Some (xs @ bad # ys)
      \<and> lacks_field [''Constructor'', ''position'', ''points'', ''wins''] bad
      \<and> list_all2 (\<lambda>x r. parse_constructor_standing x = Return r) (xs @ ys) cs"
  then have "collect parse_constructor_standing (xs @ bad # ys) [] = (cs, None)"
    using collect_skips_one [of parse_constructor_standing xs ys cs bad ValueError "[]"]
    by (simp add: parse_constructor_standing_lacks)
  with h have "standings_of ''ConstructorStandings'' parse_constructor_standing data = Return cs"
    using standings_of_elements by blast
  with h show "get_constructor_standings self season_opt w = (Return cs, w')"
    by (simp add: get_constructor_standings_def)
next
  assume h: "fetch_qualifying self season_v round_v w = (Return data, w')
      \<and> single_race ''QualifyingResults'' data = Some (race_data, xs @ bad # ys)
      \<and> parse_race w' race_data = Return race_v
      \<and> lacks_field [''Driver'', ''Constructor'', ''position''] bad
      \<and> list_all2 (\<lambda>x r. parse_qualifying_result race_v x = Return r) (xs @ ys) qs"
  then have "collect (parse_qualifying_result race_v) (xs @ bad # ys) [] = (qs, None)"
    using collect_skips_one [of "parse_qualifying_result race_v" xs ys qs bad ValueError "[]"]
    by (simp add: parse_qualifying_result_lacks)
  with h have "qualifying_results_of w' data = Return qs"
    using qualifying_single_race by blast
  with h show "get_qualifying_results self season_v round_v w = (Return qs, w')"
    by (simp add: get_qualifying_results_def)
next
  assume h: "fetch_circuit_history self circuit_id_v years w = (Return data, w')
      \<and> single_race ''Results'' data = Some (race_data, xs @ bad # ys)
      \<and> parse_race w' race_data = Return race_v
      \<and> season race_v \<ge> year_of w' (clock w') - years
      \<and> lacks_field [''Driver'', ''Constructor'', ''position'', ''points'', ''grid'', ''laps'', ''status''] bad
      \<and> list_all2 (\<lambda>x r. parse_race_result race_v x = Return r) (xs @ ys) rs"
  then have "collect (parse_race_result race_v) (xs @ bad # ys) [] = (rs, None)"
    using collect_skips_one [of "parse_race_result race_v" xs ys rs bad ValueError "[]"]
    by (simp add: parse_race_result_lacks)
  with h have "circuit_history_of w' years data = Return rs"
    using circuit_history_single_race [of data race_data "xs @ bad # ys" w' race_v rs years] by simp
  with h show "get_circuit_history self circuit_id_v years w = (Return rs, w')"
    by (simp add: get_circuit_history_def)
qed

theorem malformed_element_is_skipped_witness:
  "map position (projr (fst (get_current_season_results no_cache_fetcher None
       (replying_world (race_response (recent_race ''Results'' three_results)))))) = [1, 3]
   \<and> map ds_position (projr (fst (get_driver_standings no_cache_fetcher None
       (replying_world (standings_response ''DriverStandings'' three_driver_standings))))) = [1, 3]
   \<and> map cs_position (projr (fst (get_constructor_standings no_cache_fetcher None
       (replying_world (standings_response ''ConstructorStandings'' three_constructor_standings)))))
       = [1, 3]
   \<and> map q_position (projr (fst (get_qualifying_results no_cache_fetcher 2024 8
       (replying_world (race_response (recent_race ''QualifyingResults'' three_qualifying))))))
       = [1, 3]
   \<and> map position (projr (fst (get_circuit_history no_cache_fetcher ''monaco'' 5
       (replying_world (race_response (recent_race ''Results'' three_results)))))) = [1, 3]"
proof -
  let ?bad = incomplete_element
  \<comment> \<open>season results\<close>
  let ?d1 = "race_response (recent_race ''Results'' three_results)"
  let ?w1 = "snd (fetch_season_results no_cache_fetcher None (replying_world ?d1))"
  let ?r1 = "projr (parse_race ?w1 (recent_race ''Results'' three_results))"
  let ?rs1 = "[projr (parse_race_result ?r1 (sample_result ''1'')),
               projr (parse_race_result ?r1 (sample_result ''3''))]"
  have f1: "fst (fetch_season_results no_cache_fetcher None (replying_world ?d1)) = Return ?d1"
    by code_simp
  have s1: "single_race ''Results'' ?d1
              = Some (recent_race ''Results'' three_results, [sample_result ''1''] @ ?bad # [sample_result ''3''])"
    by code_simp
  have p1: "returned (parse_race ?w1 (recent_race ''Results'' three_results))"
    by code_simp
  have l1: "lacks_field [''Driver'', ''Constructor'', ''position'', ''points'', ''grid'', ''laps'', ''status''] ?bad"
    by code_simp
  have v1: "returned (parse_race_result ?r1 (sample_result ''1''))"
    "returned (parse_race_result ?r1 (sample_result ''3''))"
    by code_simp+
  have c1: "get_current_season_results no_cache_fetcher None (replying_world ?d1) = (Return ?rs1, ?w1)"
    using malformed_element_is_skipped [where self = no_cache_fetcher and season_opt = None
        and w = "replying_world ?d1" and data = ?d1 and w' = ?w1
        and race_data = "recent_race ''Results'' three_results"
        and xs = "[sample_result ''1'']" and bad = ?bad and ys = "[sample_result ''3'']"
        and race_v = ?r1 and rs = ?rs1]
      fst_pair [OF f1] s1 returned_projr [OF p1] l1 v1 [THEN returned_projr]
    by simp
  have n1: "map position ?rs1 = [1, 3]"
    by code_simp
  \<comment> \<open>driver standings\<close>
  let ?d2 = "standings_response ''DriverStandings'' three_driver_standings"
  let ?w2 = "snd (fetch_driver_standings no_cache_fetcher None (replying_world ?d2))"
  let ?rs2 = "[projr (parse_driver_standing (sample_driver_standing ''1'')),
               projr (parse_driver_standing (sample_driver_standing ''3''))]"
  have f2: "fst (fetch_driver_standings no_cache_fetcher None (replying_world ?d2)) = Return ?d2"
    by code_simp
  have s2: "standings_elements ''DriverStandings'' ?d2
              = Some ([sample_driver_standing ''1''] @ ?bad # [sample_driver_standing ''3''])"
    by code_simp
  have l2: "lacks_field [''Driver'', ''Constructors'', ''position'', ''points'', ''wins''] ?bad"
    by code_simp
  have v2: "returned (parse_driver_standing (sample_driver_standing ''1''))"
    "returned (parse_driver_standing (sample_driver_standing ''3''))"
    by code_simp+
  have c2: "get_driver_standings no_cache_fetcher None (replying_world ?d2) = (Return ?rs2, ?w2)"
    using malformed_element_is_skipped [where self = no_cache_fetcher and season_opt = None
        and w = "replying_world ?d2" and data = ?d2 and w' = ?w2
        and xs = "[sample_driver_standing ''1'']" and bad = ?bad
        and ys = "[sample_driver_standing ''3'']" and ds = ?rs2]
      fst_pair [OF f2] s2 l2 v2 [THEN returned_projr]
    by simp
  have n2: "map ds_position ?rs2 = [1, 3]"
    by code_simp
  \<comment> \<open>constructor standings\<close>
  let ?d3 = "standings_response ''ConstructorStandings'' three_constructor_standings"
  let ?w3 = "snd (fetch_constructor_standings no_cache_fetcher None (replying_world ?d3))"
  let ?rs3 = "[projr (parse_constructor_standing (sample_constructor_standing ''1'')),
               projr (parse_constructor_standing (sample_constructor_standing ''3''))]"
  have f3: "fst (fetch_constructor_standings no_cache_fetcher None (replying_world ?d3)) = Return ?d3"
    by code_simp
  have s3: "standings_elements ''ConstructorStandings'' ?d3
              = Some ([sample_constructor_standing ''1''] @ ?bad # [sample_constructor_standing ''3''])"
    by code_simp
  have l3: "lacks_field [''Constructor'', ''position'', ''points'', ''wins''] ?bad"
    by code_simp
  have v3: "returned (parse_constructor_standing (sample_constructor_standing ''1''))"
    "returned (parse_constructor_standing (sample_constructor_standing ''3''))"
    by code_simp+
  have c3: "get_constructor_standings no_cache_fetcher None (replying_world ?d3) = (Return ?rs3, ?w3)"
    using malformed_element_is_skipped [where self = no_cache_fetcher and season_opt = None
        and w = "replying_world ?d3" and data = ?d3 and w' = ?w3
        and xs = "[sample_constructor_standing ''1'']" and bad = ?bad
        and ys = "[sample_constructor_standing ''3'']" and cs = ?rs3]
      fst_pair [OF f3] s3 l3 v3 [THEN returned_projr]
    by simp
  have n3: "map cs_position ?rs3 = [1, 3]"
    by code_simp
  \<comment> \<open>qualifying\<close>
  let ?d4 = "race_response (recent_race ''QualifyingResults'' three_qualifying)"
  let ?w4 = "snd (fetch_qualifying no_cache_fetcher 2024 8 (replying_world ?d4))"
  let ?r4 = "projr (parse_race ?w4 (recent_race ''QualifyingResults'' three_qualifying))"
  let ?rs4 = "[projr (parse_qualifying_result ?r4 (sample_qualifying ''1'')),
               projr (parse_qualifying_result ?r4 (sample_qualifying ''3''))]"
  have f4: "fst (fetch_qualifying no_cache_fetcher 2024 8 (replying_world ?d4)) = Return ?d4"
    by code_simp
  have s4: "single_race ''QualifyingResults'' ?d4
              = Some (recent_race ''QualifyingResults'' three_qualifying,
                      [sample_qualifying ''1''] @ ?bad # [sample_qualifying ''3''])"
    by code_simp
  have p4: "returned (parse_race ?w4 (recent_race ''QualifyingResults'' three_qualifying))"
    by code_simp
  have l4: "lacks_field [''Driver'', ''Constructor'', ''position''] ?bad"
    by code_simp
  have v4: "returned (parse_qualifying_result ?r4 (sample_qualifying ''1''))"
    "returned (parse_qualifying_result ?r4 (sample_qualifying ''3''))"
    by code_simp+
  have c4: "get_qualifying_results no_cache_fetcher 2024 8 (replying_world ?d4) = (Return ?rs4, ?w4)"
    using malformed_element_is_skipped [where self = no_cache_fetcher and season_v = 2024
        and round_v = 8 and w = "replying_world ?d4" and data = ?d4 and w' = ?w4
        and race_data = "recent_race ''QualifyingResults'' three_qualifying"
        and xs = "[sample_qualifying ''1'']" and bad = ?bad and ys = "[sample_qualifying ''3'']"
        and race_v = ?r4 and qs = ?rs4]
      fst_pair [OF f4] s4 returned_projr [OF p4] l4 v4 [THEN returned_projr]
    by simp
  have n4: "map q_position ?rs4 = [1, 3]"
    by code_simp
  \<comment> \<open>circuit history\<close>
  let ?w5 = "snd (fetch_circuit_history no_cache_fetcher ''monaco'' 5 (replying_world ?d1))"
  let ?r5 = "projr (parse_race ?w5 (recent_race ''Results'' three_results))"
  let ?rs5 = "[projr (parse_race_result ?r5 (sample_result ''1'')),
               projr (parse_race_result ?r5 (sample_result ''3''))]"
  have f5: "fst (fetch_circuit_history no_cache_fetcher ''monaco'' 5 (replying_world ?d1)) = Return ?d1"
    by code_simp
  have p5: "returned (parse_race ?w5 (recent_race ''Results'' three_results))"
    by code_simp
  have y5: "season ?r5 \<ge> year_of ?w5 (clock ?w5) - 5"
    by code_simp
  have v5: "returned (parse_race_result ?r5 (sample_result ''1''))"
    "returned (parse_race_result ?r5 (sample_result ''3''))"
    by code_simp+
  have c5: "get_circuit_history no_cache_fetcher ''monaco'' 5 (replying_world ?d1) = (Return ?rs5, ?w5)"
    using malformed_element_is_skipped [where self = no_cache_fetcher and circuit_id_v = "''monaco''"
        and years = 5 and w = "replying_world ?d1" and data = ?d1 and w' = ?w5
        and race_data = "recent_race ''Results'' three_results"
        and xs = "[sample_result ''1'']" and bad = ?bad and ys = "[sample_result ''3'']"
        and race_v = ?r5 and rs = ?rs5]
      fst_pair [OF f5] s1 returned_projr [OF p5] y5 l1 v5 [THEN returned_projr]
    by simp
  have n5: "map position ?rs5 = [1, 3]"
    by code_simp
  show ?thesis
    by (simp only: c1 c2 c3 c4 c5 fst_conv sum.sel n1 n2 n3 n4 n5 simp_thms)
qed

section \<open>The failure policy of the operations\<close>

text \<open>
  Claim C9: when the fetch of an operation ends in a request failure, \<open>get_next_race\<close>
  raises (a ValueError), and so it does when the fetch returns an envelope whose race
  collection is empty; \<open>get_current_season_results\<close>, \<open>get_driver_standings\<close> and
  \<open>get_constructor_standings\<close> return the empty list instead.
\<close>

theorem failure_policy:
  "(fst (fetch_next_race self w) = Raise e1 \<and> is_RequestException e1
      \<longrightarrow> fst (get_next_race self w) = Raise ValueError)
   \<and> (fetch_next_race self w = (Return data, w') \<and> py_in ''MRData'' data = Return True
        \<and> table_field data ''RaceTable'' ''Races'' = Return races \<and> py_falsy races
      \<longrightarrow> fst (get_next_race self w) = Raise ValueError)
   \<and> (fst (fetch_season_results self season_opt w) = Raise e2 \<and> is_RequestException e2
      \<longrightarrow> fst (get_current_season_results self season_opt w) = Return [])
   \<and> (fst (fetch_driver_standings self season_opt w) = Raise e3 \<and> is_RequestException e3
      \<longrightarrow> fst (get_driver_standings self season_opt w) = Return [])
   \<and> (fst (fetch_constructor_standings self season_opt w) = Raise e4 \<and> is_RequestException e4
      \<longrightarrow> fst (get_constructor_standings self season_opt w) = Return [])"
proof (intro conjI impI)
  assume "fst (fetch_next_race self w) = Raise e1 \<and> is_RequestException e1"
  then show "fst (get_next_race self w) = Raise ValueError"
    by (cases "fetch_next_race self w") (auto simp: get_next_race_def)
next
  assume "fetch_next_race self w = (Return data, w') \<and> py_in ''MRData'' data = Return True
        \<and> table_field data ''RaceTable'' ''Races'' = Return races \<and> py_falsy races"
  then show "fst (get_next_race self w) = Raise ValueError"
    by (simp add: get_next_race_def next_race_of_def bindR_def)
next
  assume "fst (fetch_season_results self season_opt w) = Raise e2 \<and> is_RequestException e2"
  then show "fst (get_current_season_results self season_opt w) = Return []"
    by (cases "fetch_season_results self season_opt w") (auto simp: get_current_season_results_def)
next
  assume "fst (fetch_driver_standings self season_opt w) = Raise e3 \<and> is_RequestException e3"
  then show "fst (get_driver_standings self season_opt w) = Return []"
    by (cases "fetch_driver_standings self season_opt w") (auto simp: get_driver_standings_def)
next
  assume "fst (fetch_constructor_standings self season_opt w) = Raise e4 \<and> is_RequestException e4"
  then show "fst (get_constructor_standings self season_opt w) = Return []"
    by (cases "fetch_constructor_standings self season_opt w")
      (auto simp: get_constructor_standings_def)
qed

theorem failure_policy_witness:
  "fst (get_next_race no_cache_fetcher quiet_world) = Raise ValueError
   \<and> fst (get_next_race no_cache_fetcher (replying_world no_races_response)) = Raise ValueError
   \<and> fst (get_current_season_results no_cache_fetcher None quiet_world) = Return []
   \<and> fst (get_driver_standings no_cache_fetcher None quiet_world) = Return []
   \<and> fst (get_constructor_standings no_cache_fetcher None quiet_world) = Return []"
proof -
  have a: "fst (fetch_next_race no_cache_fetcher quiet_world) = Raise ConnectionError"
    by code_simp
  have b: "fst (fetch_next_race no_cache_fetcher (replying_world no_races_response))
             = Return no_races_response"
    by code_simp
  have b': "py_in ''MRData'' no_races_response = Return True"
    "table_field no_races_response ''RaceTable'' ''Races'' = Return (JArr [])"
    "py_falsy (JArr [])"
    by code_simp+
  have c: "fst (fetch_season_results no_cache_fetcher None quiet_world) = Raise ConnectionError"
    by code_simp
  have d: "fst (fetch_driver_standings no_cache_fetcher None quiet_world) = Raise ConnectionError"
    by code_simp
  have e: "fst (fetch_constructor_standings no_cache_fetcher None quiet_world) = Raise ConnectionError"
    by code_simp
  show ?thesis
    using failure_policy [where self = no_cache_fetcher and w = quiet_world
        and season_opt = None and ?e1.0 = ConnectionError and ?e2.0 = ConnectionError
        and ?e3.0 = ConnectionError and ?e4.0 = ConnectionError]
      failure_policy [where self = no_cache_fetcher and w = "replying_world no_races_response"
        and data = no_races_response and races = "JArr []"
        and w' = "snd (fetch_next_race no_cache_fetcher (replying_world no_races_response))"]
      a fst_pair [OF b] b' c d e
    by simp
qed

end
